theory Spec2Isabelle
  imports Main "HOL-Library.Word"
begin

section \<open>The query execution routine of slonik (src/routines/executeQuery.js)\<close>

text \<open>
  The routine \<^verbatim>\<open>executeQuery\<close> runs one SQL statement through the interceptors of the
  client configuration, hands it to the injected execution routine, turns a driver error
  into one of the error classes of slonik and returns the result. The embedding below
  follows the source statement by statement. What the source mutates (the termination
  flag and the notice listeners of the connection) is state that the model returns
  updated; what the source throws is the left summand of a sum; the invocations the
  source makes (interceptor hooks, the execution routine, the logger, the registration and
  the removal of the notice listener) are written to a trace, in the order in which they
  happen, each with what it returned or threw.
\<close>

subsection \<open>Strings\<close>

text \<open>
  A JavaScript string is a sequence of 16-bit code units. \<open>js\<close> writes an ASCII literal
  of the source as such a sequence.
\<close>

type_synonym jsString = "16 word list"

definition js :: "string \<Rightarrow> jsString" where
  "js s = map of_char s"

text \<open>
  \<^verbatim>\<open>String.prototype.trim\<close> removes the white space and the line terminators of
  ECMAScript from both ends: TAB, LF, VT, FF, CR, SP, NBSP, the other space separators of
  Unicode (category Zs), LS, PS and the byte order mark.
\<close>

definition isWhiteSpace :: "16 word \<Rightarrow> bool" where
  "isWhiteSpace c = (c \<in> set [0x9, 0xA, 0xB, 0xC, 0xD, 0x20, 0xA0, 0x1680,
     0x2000, 0x2001, 0x2002, 0x2003, 0x2004, 0x2005, 0x2006, 0x2007, 0x2008, 0x2009, 0x200A,
     0x2028, 0x2029, 0x202F, 0x205F, 0x3000, 0xFEFF])"

definition trim :: "jsString \<Rightarrow> jsString" where
  "trim s = rev (dropWhile isWhiteSpace (rev (dropWhile isWhiteSpace s)))"

text \<open>\<^verbatim>\<open>String.prototype.includes\<close>: the argument occurs as a contiguous part.\<close>

fun startsWith :: "jsString \<Rightarrow> jsString \<Rightarrow> bool" where
  "startsWith s [] = True"
| "startsWith [] (c # t) = False"
| "startsWith (d # s) (c # t) = (d = c \<and> startsWith s t)"

fun str_includes :: "jsString \<Rightarrow> jsString \<Rightarrow> bool" where
  "str_includes [] t = (t = [])"
| "str_includes (d # s) t = (startsWith (d # s) t \<or> str_includes s t)"

subsection \<open>Errors\<close>

text \<open>
  An error of the driver carries a code, a message and, for a constraint violation, the
  name of the constraint (section 6 of the specification); \<open>code\<close> and \<open>constraint\<close> are
  \<open>None\<close> where the JavaScript property is undefined.
\<close>

record driver_error =
  code :: "jsString option"
  message :: jsString
  constraint :: "jsString option"

text \<open>
  What \<^verbatim>\<open>executeQuery\<close> and the hooks throw. Each error class of \<^verbatim>\<open>../errors\<close> is a
  constructor that keeps the arguments the source passes to \<^verbatim>\<open>new\<close>; \<open>OriginalError\<close> is
  an error object thrown as it is (\<^verbatim>\<open>throw error\<close>).
\<close>

datatype thrown =
    BackendTerminatedError driver_error
  | InvalidInputError jsString
  | StatementTimeoutError driver_error
  | StatementCancelledError driver_error
  | NotNullIntegrityConstraintViolationError driver_error "jsString option"
  | ForeignKeyIntegrityConstraintViolationError driver_error "jsString option"
  | UniqueIntegrityConstraintViolationError driver_error "jsString option"
  | CheckIntegrityConstraintViolationError driver_error "jsString option"
  | OriginalError driver_error

subsection \<open>Queries, results, the query context\<close>

text \<open>
  The types of the values bound to a query (\<open>'v\<close>), of a row (\<open>'r\<close>), of the field
  descriptions (\<open>'f\<close>) and of a notice (\<open>'n\<close>) are those of \<^verbatim>\<open>../types\<close>; the routine
  never looks into them, so they are type parameters.
\<close>

record 'v query =
  sql :: jsString
  values' :: "'v list"

record ('r, 'f, 'n) queryResult =
  rows :: "'r list option"
  fields' :: "'f option"
  notices :: "'n list"

record callSite =
  columnNumber :: nat
  fileName :: jsString
  lineNumber :: nat

text \<open>
  The execution context. The logger handle \<^verbatim>\<open>log\<close> is left out (its calls are events of
  the trace), and so is \<^verbatim>\<open>sandbox\<close>, the object that starts empty in every call.
\<close>

record 'v queryContext =
  connectionId :: jsString
  originalQuery :: "'v query"
  poolId :: jsString
  queryId :: jsString
  queryInputTime :: nat
  stackTrace :: "callSite list option"
  transactionId :: "jsString option"

subsection \<open>The connection\<close>

text \<open>
  Of the connection the routine reads \<^verbatim>\<open>connection.connection.slonik\<close> and
  \<^verbatim>\<open>connection.native\<close>, writes \<^verbatim>\<open>connection.connection.slonik.terminated\<close>, and adds and
  removes a listener of the event \<^verbatim>\<open>notice\<close>. A listener is named by a number (the
  identity of the function object); \<open>noticeListeners\<close> lists them in the order of their
  registration.
\<close>

record connection =
  slonik_connectionId :: jsString
  slonik_poolId :: jsString
  slonik_transactionId :: "jsString option"
  slonik_terminated :: "driver_error option"
  native :: bool
  noticeListeners :: "nat list"

text \<open>
  \<^verbatim>\<open>connection.on\<close> appends the listener; \<^verbatim>\<open>connection.off\<close> removes the instance of the
  listener that was added last, as the event emitter of Node.js does.
\<close>

definition connection_on :: "nat \<Rightarrow> connection \<Rightarrow> connection" where
  "connection_on l c = c\<lparr>noticeListeners := noticeListeners c @ [l]\<rparr>"

definition connection_off :: "nat \<Rightarrow> connection \<Rightarrow> connection" where
  "connection_off l c = c\<lparr>noticeListeners := rev (remove1 l (rev (noticeListeners c)))\<rparr>"

subsection \<open>Interceptors and the client configuration\<close>

text \<open>
  An interceptor has any of seven hooks; a hook that is absent is \<open>None\<close>. A hook is
  modelled by what it returns or throws on its arguments: \<open>Inl e\<close> (for a hook whose
  value is unused, \<open>Some e\<close>) says that it throws \<open>e\<close> or, where the source awaits it, that
  its promise is rejected with \<open>e\<close>. \<open>beforeQueryExecution\<close> returns \<open>None\<close> for a value
  that JavaScript takes as false (no result). What a hook does besides (to the object \<^verbatim>\<open>sandbox\<close> of
  the context, to a state of its own) is not part of the model, and the query and the
  result that a hook receives are values: the working copy of the query is replaced as a
  whole and never changed in place (section 3 of the specification).
\<close>

record ('v, 'r, 'f, 'n) interceptor =
  beforeTransformQuery :: "('v queryContext \<Rightarrow> 'v query \<Rightarrow> thrown option) option"
  transformQuery :: "('v queryContext \<Rightarrow> 'v query \<Rightarrow> thrown + 'v query) option"
  beforeQueryExecution ::
    "('v queryContext \<Rightarrow> 'v query \<Rightarrow> thrown + ('r, 'f, 'n) queryResult option) option"
  queryExecutionError :: "('v queryContext \<Rightarrow> 'v query \<Rightarrow> thrown \<Rightarrow> thrown option) option"
  afterQueryExecution ::
    "('v queryContext \<Rightarrow> 'v query \<Rightarrow> ('r, 'f, 'n) queryResult \<Rightarrow> thrown option) option"
  transformRow :: "('v queryContext \<Rightarrow> 'v query \<Rightarrow> 'r \<Rightarrow> 'f option \<Rightarrow> thrown + 'r) option"
  beforeQueryResult ::
    "('v queryContext \<Rightarrow> 'v query \<Rightarrow> ('r, 'f, 'n) queryResult \<Rightarrow> thrown option) option"

record ('v, 'r, 'f, 'n) clientConfiguration =
  captureStackTrace :: bool
  interceptors :: "('v, 'r, 'f, 'n) interceptor list"

text \<open>
  The execution routine receives the connection, the SQL text, the normalised values, the
  context and the query. It returns the notices that the connection emits while it runs,
  and its result or the error of the driver. It leaves the termination flag and the
  listeners of the connection alone: only the routine below writes them.
\<close>

type_synonym ('v, 'r, 'f, 'n) executionRoutine =
  "connection \<Rightarrow> jsString \<Rightarrow> 'v list \<Rightarrow> 'v queryContext \<Rightarrow> 'v query
     \<Rightarrow> 'n list \<times> (driver_error + ('r, 'f, 'n) queryResult)"

text \<open>
  What the routine takes from its environment: the clock (\<^verbatim>\<open>process.hrtime.bigint()\<close>),
  the call sites that \<^verbatim>\<open>getStackTrace()\<close> resolves to, the identifier that
  \<^verbatim>\<open>createQueryId()\<close> makes, the identity of the function \<^verbatim>\<open>noticeListener\<close> that the call
  creates, and \<^verbatim>\<open>normaliseQueryValues\<close> of \<^verbatim>\<open>../utilities\<close>.
\<close>

record 'v environment =
  hrtime :: nat
  getStackTrace :: "callSite list"
  createQueryId :: jsString
  noticeListener :: nat
  normaliseQueryValues :: "'v list \<Rightarrow> bool \<Rightarrow> 'v list"

subsection \<open>The trace\<close>

text \<open>
  One event for every invocation, with the position of the interceptor in the
  configuration (from 0), the arguments that vary and the outcome.
\<close>

datatype ('v, 'r, 'f, 'n) event =
    BeforeTransformQuery nat "'v query" "thrown option"
  | TransformQuery nat "'v query" "thrown + 'v query"
  | BeforeQueryExecution nat "'v query" "thrown + ('r, 'f, 'n) queryResult option"
  | LogInfo
  | On nat
  | ExecutionRoutine jsString "'v list" "'v query" "driver_error + ('r, 'f, 'n) queryResult"
  | LogError driver_error
  | Off nat
  | QueryExecutionError nat "'v query" thrown "thrown option"
  | AfterQueryExecution nat "'v query" "('r, 'f, 'n) queryResult" "thrown option"
  | TransformRow nat "'v query" 'r "'f option" "thrown + 'r"
  | BeforeQueryResult nat "'v query" "('r, 'f, 'n) queryResult" "thrown option"

subsection \<open>The loops over the interceptors\<close>

text \<open>
  Every loop of the source runs over \<^verbatim>\<open>clientConfiguration.interceptors\<close> in the order
  of the list. The model pairs each interceptor with its position, for the trace only.
\<close>

definition indexed :: "'a list \<Rightarrow> (nat \<times> 'a) list" where
  "indexed xs = zip [0..<length xs] xs"

text \<open>Lines 110 to 114: the value of the hook is not used.\<close>

fun run_beforeTransformQuery ::
  "'v queryContext \<Rightarrow> 'v query \<Rightarrow> (nat \<times> ('v, 'r, 'f, 'n) interceptor) list
     \<Rightarrow> thrown option \<times> ('v, 'r, 'f, 'n) event list" where
  "run_beforeTransformQuery executionContext actualQuery [] = (None, [])"
| "run_beforeTransformQuery executionContext actualQuery ((i, interceptor) # rest) =
     (case beforeTransformQuery interceptor of
        None \<Rightarrow> run_beforeTransformQuery executionContext actualQuery rest
      | Some hook \<Rightarrow>
          (case hook executionContext actualQuery of
             Some e \<Rightarrow> (Some e, [BeforeTransformQuery i actualQuery (Some e)])
           | None \<Rightarrow>
               apsnd ((#) (BeforeTransformQuery i actualQuery None))
                 (run_beforeTransformQuery executionContext actualQuery rest)))"

text \<open>Lines 116 to 120: what a hook returns is the query of the next hook.\<close>

fun run_transformQuery ::
  "'v queryContext \<Rightarrow> 'v query \<Rightarrow> (nat \<times> ('v, 'r, 'f, 'n) interceptor) list
     \<Rightarrow> (thrown + 'v query) \<times> ('v, 'r, 'f, 'n) event list" where
  "run_transformQuery executionContext actualQuery [] = (Inr actualQuery, [])"
| "run_transformQuery executionContext actualQuery ((i, interceptor) # rest) =
     (case transformQuery interceptor of
        None \<Rightarrow> run_transformQuery executionContext actualQuery rest
      | Some hook \<Rightarrow>
          (case hook executionContext actualQuery of
             Inl e \<Rightarrow> (Inl e, [TransformQuery i actualQuery (Inl e)])
           | Inr actualQuery' \<Rightarrow>
               apsnd ((#) (TransformQuery i actualQuery (Inr actualQuery')))
                 (run_transformQuery executionContext actualQuery' rest)))"

text \<open>
  Lines 124 to 134: the first result that JavaScript takes as true is logged and
  returned.
\<close>

fun run_beforeQueryExecution ::
  "'v queryContext \<Rightarrow> 'v query \<Rightarrow> (nat \<times> ('v, 'r, 'f, 'n) interceptor) list
     \<Rightarrow> (thrown + ('r, 'f, 'n) queryResult option) \<times> ('v, 'r, 'f, 'n) event list" where
  "run_beforeQueryExecution executionContext actualQuery [] = (Inr None, [])"
| "run_beforeQueryExecution executionContext actualQuery ((i, interceptor) # rest) =
     (case beforeQueryExecution interceptor of
        None \<Rightarrow> run_beforeQueryExecution executionContext actualQuery rest
      | Some hook \<Rightarrow>
          (case hook executionContext actualQuery of
             Inl e \<Rightarrow> (Inl e, [BeforeQueryExecution i actualQuery (Inl e)])
           | Inr (Some result) \<Rightarrow>
               (Inr (Some result),
                [BeforeQueryExecution i actualQuery (Inr (Some result)), LogInfo])
           | Inr None \<Rightarrow>
               apsnd ((#) (BeforeQueryExecution i actualQuery (Inr None)))
                 (run_beforeQueryExecution executionContext actualQuery rest)))"

text \<open>Lines 195 to 199: every hook is awaited; its value is not used.\<close>

fun run_queryExecutionError ::
  "'v queryContext \<Rightarrow> 'v query \<Rightarrow> thrown \<Rightarrow> (nat \<times> ('v, 'r, 'f, 'n) interceptor) list
     \<Rightarrow> thrown option \<times> ('v, 'r, 'f, 'n) event list" where
  "run_queryExecutionError executionContext actualQuery error [] = (None, [])"
| "run_queryExecutionError executionContext actualQuery error ((i, interceptor) # rest) =
     (case queryExecutionError interceptor of
        None \<Rightarrow> run_queryExecutionError executionContext actualQuery error rest
      | Some hook \<Rightarrow>
          (case hook executionContext actualQuery error of
             Some e \<Rightarrow> (Some e, [QueryExecutionError i actualQuery error (Some e)])
           | None \<Rightarrow>
               apsnd ((#) (QueryExecutionError i actualQuery error None))
                 (run_queryExecutionError executionContext actualQuery error rest)))"

text \<open>Lines 207 to 211.\<close>

fun run_afterQueryExecution ::
  "'v queryContext \<Rightarrow> 'v query \<Rightarrow> ('r, 'f, 'n) queryResult
     \<Rightarrow> (nat \<times> ('v, 'r, 'f, 'n) interceptor) list
     \<Rightarrow> thrown option \<times> ('v, 'r, 'f, 'n) event list" where
  "run_afterQueryExecution executionContext actualQuery result [] = (None, [])"
| "run_afterQueryExecution executionContext actualQuery result ((i, interceptor) # rest) =
     (case afterQueryExecution interceptor of
        None \<Rightarrow> run_afterQueryExecution executionContext actualQuery result rest
      | Some hook \<Rightarrow>
          (case hook executionContext actualQuery result of
             Some e \<Rightarrow> (Some e, [AfterQueryExecution i actualQuery result (Some e)])
           | None \<Rightarrow>
               apsnd ((#) (AfterQueryExecution i actualQuery result None))
                 (run_afterQueryExecution executionContext actualQuery result rest)))"

text \<open>
  Lines 221 to 223: \<^verbatim>\<open>map\<close> of \<^verbatim>\<open>inline-loops.macro\<close> calls the hook of one interceptor
  on the rows, from the first row to the last.
\<close>

fun map_transformRow ::
  "nat \<Rightarrow> ('v queryContext \<Rightarrow> 'v query \<Rightarrow> 'r \<Rightarrow> 'f option \<Rightarrow> thrown + 'r)
     \<Rightarrow> 'v queryContext \<Rightarrow> 'v query \<Rightarrow> 'f option \<Rightarrow> 'r list
     \<Rightarrow> (thrown + 'r list) \<times> ('v, 'r, 'f, 'n) event list" where
  "map_transformRow i hook executionContext actualQuery resultFields [] = (Inr [], [])"
| "map_transformRow i hook executionContext actualQuery resultFields (row # rest) =
     (case hook executionContext actualQuery row resultFields of
        Inl e \<Rightarrow> (Inl e, [TransformRow i actualQuery row resultFields (Inl e)])
      | Inr row' \<Rightarrow>
          (case map_transformRow i hook executionContext actualQuery resultFields rest of
             (Inl e, evs) \<Rightarrow> (Inl e, TransformRow i actualQuery row resultFields (Inr row') # evs)
           | (Inr rows', evs) \<Rightarrow>
               (Inr (row' # rows'), TransformRow i actualQuery row resultFields (Inr row') # evs)))"

text \<open>
  Lines 215 to 230, on the rows of the result: the rows that one interceptor returns are
  the rows of the next.
\<close>

fun run_transformRow ::
  "'v queryContext \<Rightarrow> 'v query \<Rightarrow> 'f option \<Rightarrow> 'r list
     \<Rightarrow> (nat \<times> ('v, 'r, 'f, 'n) interceptor) list
     \<Rightarrow> (thrown + 'r list) \<times> ('v, 'r, 'f, 'n) event list" where
  "run_transformRow executionContext actualQuery resultFields rs [] = (Inr rs, [])"
| "run_transformRow executionContext actualQuery resultFields rs ((i, interceptor) # rest) =
     (case transformRow interceptor of
        None \<Rightarrow> run_transformRow executionContext actualQuery resultFields rs rest
      | Some hook \<Rightarrow>
          (case map_transformRow i hook executionContext actualQuery resultFields rs of
             (Inl e, evs) \<Rightarrow> (Inl e, evs)
           | (Inr rs', evs) \<Rightarrow>
               apsnd ((@) evs)
                 (run_transformRow executionContext actualQuery resultFields rs' rest)))"

text \<open>Lines 233 to 237.\<close>

fun run_beforeQueryResult ::
  "'v queryContext \<Rightarrow> 'v query \<Rightarrow> ('r, 'f, 'n) queryResult
     \<Rightarrow> (nat \<times> ('v, 'r, 'f, 'n) interceptor) list
     \<Rightarrow> thrown option \<times> ('v, 'r, 'f, 'n) event list" where
  "run_beforeQueryResult executionContext actualQuery result [] = (None, [])"
| "run_beforeQueryResult executionContext actualQuery result ((i, interceptor) # rest) =
     (case beforeQueryResult interceptor of
        None \<Rightarrow> run_beforeQueryResult executionContext actualQuery result rest
      | Some hook \<Rightarrow>
          (case hook executionContext actualQuery result of
             Some e \<Rightarrow> (Some e, [BeforeQueryResult i actualQuery result (Some e)])
           | None \<Rightarrow>
               apsnd ((#) (BeforeQueryResult i actualQuery result None))
                 (run_beforeQueryResult executionContext actualQuery result rest)))"

subsection \<open>The execution routine, its errors and the notice listener\<close>

text \<open>
  Lines 160 to 190, the \<^verbatim>\<open>catch\<close> block after its call of the logger: the tests in the
  order of the source, the first that holds decides. Only the first branch writes to the
  connection.
\<close>

definition catchExecutionError :: "connection \<Rightarrow> driver_error \<Rightarrow> connection \<times> thrown" where
  "catchExecutionError connection error =
     (if code error = Some (js ''57P01'') \<or> message error = js ''Connection terminated''
      then (connection\<lparr>slonik_terminated := Some error\<rparr>, BackendTerminatedError error)
      else if code error = Some (js ''57014'') \<and>
          str_includes (message error) (js ''canceling statement due to statement timeout'')
      then (connection, StatementTimeoutError error)
      else if code error = Some (js ''57014'')
      then (connection, StatementCancelledError error)
      else if code error = Some (js ''23502'')
      then (connection, NotNullIntegrityConstraintViolationError error (constraint error))
      else if code error = Some (js ''23503'')
      then (connection, ForeignKeyIntegrityConstraintViolationError error (constraint error))
      else if code error = Some (js ''23505'')
      then (connection, UniqueIntegrityConstraintViolationError error (constraint error))
      else if code error = Some (js ''23514'')
      then (connection, CheckIntegrityConstraintViolationError error (constraint error))
      else (connection, OriginalError error))"

text \<open>
  Lines 136 to 193: the listener is registered, the execution routine is called, and the
  inner \<^verbatim>\<open>try\<close> ends in its \<^verbatim>\<open>finally\<close>. The value is what the statement yields (the
  error it throws, or the result), the notices that the listener has collected, the
  connection and the trace.
\<close>

definition tryExecutionRoutine ::
  "'v environment \<Rightarrow> connection \<Rightarrow> ('v, 'r, 'f, 'n) executionRoutine
     \<Rightarrow> 'v queryContext \<Rightarrow> 'v query
     \<Rightarrow> (thrown + ('r, 'f, 'n) queryResult) \<times> 'n list \<times> connection
         \<times> ('v, 'r, 'f, 'n) event list" where
  "tryExecutionRoutine env connection executionRoutine executionContext actualQuery =
     (let listener = noticeListener env;
          connection1 = connection_on listener connection;
          normalised = normaliseQueryValues env (values' actualQuery) (native connection);
          (notices, outcome) =
            executionRoutine connection1 (sql actualQuery) normalised executionContext
              actualQuery;
          call = ExecutionRoutine (sql actualQuery) normalised actualQuery outcome
      in case outcome of
           Inr result \<Rightarrow>
             (Inr result, notices, connection_off listener connection1,
              [On listener, call, Off listener])
         | Inl error \<Rightarrow>
             (let (connection2, classified) = catchExecutionError connection1 error
              in (Inl classified, notices, connection_off listener connection2,
                  [On listener, call, LogError error, Off listener])))"

subsection \<open>After a successful execution\<close>

text \<open>Lines 214 to 231: without rows in the result no hook is called.\<close>

definition transformRows ::
  "'v queryContext \<Rightarrow> 'v query \<Rightarrow> ('r, 'f, 'n) queryResult
     \<Rightarrow> (nat \<times> ('v, 'r, 'f, 'n) interceptor) list
     \<Rightarrow> (thrown + ('r, 'f, 'n) queryResult) \<times> ('v, 'r, 'f, 'n) event list" where
  "transformRows executionContext actualQuery result ixs =
     (case rows result of
        None \<Rightarrow> (Inr result, [])
      | Some rs \<Rightarrow>
          (case run_transformRow executionContext actualQuery (fields' result) rs ixs of
             (Inl e, evs) \<Rightarrow> (Inl e, evs)
           | (Inr rs', evs) \<Rightarrow> (Inr (result\<lparr>rows := Some rs'\<rparr>), evs)))"

text \<open>Lines 205 to 239.\<close>

definition finishQuery ::
  "'v queryContext \<Rightarrow> 'v query \<Rightarrow> (nat \<times> ('v, 'r, 'f, 'n) interceptor) list
     \<Rightarrow> ('r, 'f, 'n) queryResult \<Rightarrow> 'n list
     \<Rightarrow> (thrown + ('r, 'f, 'n) queryResult) \<times> ('v, 'r, 'f, 'n) event list" where
  "finishQuery executionContext actualQuery ixs result0 collected =
     (let result = result0\<lparr>notices := collected\<rparr>
      in case run_afterQueryExecution executionContext actualQuery result ixs of
           (Some e, evs1) \<Rightarrow> (Inl e, evs1)
         | (None, evs1) \<Rightarrow>
             (case transformRows executionContext actualQuery result ixs of
                (Inl e, evs2) \<Rightarrow> (Inl e, evs1 @ evs2)
              | (Inr result', evs2) \<Rightarrow>
                  (case run_beforeQueryResult executionContext actualQuery result' ixs of
                     (Some e, evs3) \<Rightarrow> (Inl e, evs1 @ evs2 @ evs3)
                   | (None, evs3) \<Rightarrow> (Inr result', evs1 @ evs2 @ evs3))))"

subsection \<open>The routine\<close>

text \<open>
  Lines 67 to 108. \<^verbatim>\<open>inheritedQueryId || createQueryId()\<close> takes the inherited identifier
  unless it is undefined or the empty string.
\<close>

definition executionContext ::
  "'v environment \<Rightarrow> connection \<Rightarrow> ('v, 'r, 'f, 'n) clientConfiguration \<Rightarrow> jsString
     \<Rightarrow> 'v list \<Rightarrow> jsString option \<Rightarrow> 'v queryContext" where
  "executionContext env connection clientConfiguration rawSql vs inheritedQueryId =
     \<lparr>connectionId = slonik_connectionId connection,
      originalQuery = \<lparr>sql = rawSql, values' = vs\<rparr>,
      poolId = slonik_poolId connection,
      queryId =
        (case inheritedQueryId of
           None \<Rightarrow> createQueryId env
         | Some i \<Rightarrow> if i = [] then createQueryId env else i),
      queryInputTime = hrtime env,
      stackTrace =
        (if captureStackTrace clientConfiguration
         then Some (map (\<lambda>callSite.
                \<lparr>columnNumber = columnNumber callSite, fileName = fileName callSite,
                 lineNumber = lineNumber callSite\<rparr>) (getStackTrace env))
         else None),
      transactionId = slonik_transactionId connection\<rparr>"

text \<open>
  Lines 136 to 239: the execution, the hooks \<open>queryExecutionError\<close> of the outer \<^verbatim>\<open>catch\<close>
  (lines 194 to 202) and the rest of the routine after a result.
\<close>

definition executeActualQuery ::
  "'v environment \<Rightarrow> connection \<Rightarrow> ('v, 'r, 'f, 'n) executionRoutine
     \<Rightarrow> 'v queryContext \<Rightarrow> 'v query \<Rightarrow> (nat \<times> ('v, 'r, 'f, 'n) interceptor) list
     \<Rightarrow> (thrown + ('r, 'f, 'n) queryResult) \<times> connection \<times> ('v, 'r, 'f, 'n) event list" where
  "executeActualQuery env connection executionRoutine ctx actualQuery ixs =
     (case tryExecutionRoutine env connection executionRoutine ctx actualQuery of
        (Inl error, collected, connection', evs) \<Rightarrow>
          (case run_queryExecutionError ctx actualQuery error ixs of
             (Some e, evs') \<Rightarrow> (Inl e, connection', evs @ evs')
           | (None, evs') \<Rightarrow> (Inl error, connection', evs @ evs'))
      | (Inr result, collected, connection', evs) \<Rightarrow>
          (case finishQuery ctx actualQuery ixs result collected of
             (outcome, evs') \<Rightarrow> (outcome, connection', evs @ evs')))"

text \<open>
  The routine (the default export). Its value is what the call throws (\<open>Inl\<close>) or returns
  (\<open>Inr\<close>), the connection after the call and the trace of the call.
\<close>

definition executeQuery ::
  "'v environment \<Rightarrow> connection \<Rightarrow> ('v, 'r, 'f, 'n) clientConfiguration \<Rightarrow> jsString
     \<Rightarrow> 'v list \<Rightarrow> jsString option \<Rightarrow> ('v, 'r, 'f, 'n) executionRoutine
     \<Rightarrow> (thrown + ('r, 'f, 'n) queryResult) \<times> connection \<times> ('v, 'r, 'f, 'n) event list" where
  "executeQuery env connection clientConfiguration rawSql vs inheritedQueryId executionRoutine =
     (case slonik_terminated connection of
        Some cause \<Rightarrow> (Inl (BackendTerminatedError cause), connection, [])
      | None \<Rightarrow>
          if trim rawSql = []
          then (Inl (InvalidInputError (js ''Unexpected SQL input. Query cannot be empty.'')),
                connection, [])
          else if trim rawSql = js ''$1''
          then (Inl (InvalidInputError
                  (js ''Unexpected SQL input. Query cannot be empty. Found only value binding.'')),
                connection, [])
          else
            (let ctx = executionContext env connection clientConfiguration rawSql vs
                   inheritedQueryId;
                 originalQuery = \<lparr>sql = rawSql, values' = vs\<rparr>;
                 actualQuery = originalQuery;
                 ixs = indexed (interceptors clientConfiguration)
             in case run_beforeTransformQuery ctx actualQuery ixs of
                  (Some e, evs1) \<Rightarrow> (Inl e, connection, evs1)
                | (None, evs1) \<Rightarrow>
                    (case run_transformQuery ctx actualQuery ixs of
                       (Inl e, evs2) \<Rightarrow> (Inl e, connection, evs1 @ evs2)
                     | (Inr actualQuery', evs2) \<Rightarrow>
                         (case run_beforeQueryExecution ctx actualQuery' ixs of
                            (Inl e, evs3) \<Rightarrow> (Inl e, connection, evs1 @ evs2 @ evs3)
                          | (Inr (Some result), evs3) \<Rightarrow>
                              (Inr result, connection, evs1 @ evs2 @ evs3)
                          | (Inr None, evs3) \<Rightarrow>
                              (case executeActualQuery env connection executionRoutine ctx
                                      actualQuery' ixs of
                                 (outcome, connection', evs4) \<Rightarrow>
                                   (outcome, connection', evs1 @ evs2 @ evs3 @ evs4))))))"

subsection \<open>The parts of a trace\<close>

text \<open>
  The events of the loops before the execution (lines 110 to 134), and the events of the
  hooks that follow it (lines 194 to 237).
\<close>

fun beforeExecution :: "('v, 'r, 'f, 'n) event \<Rightarrow> bool" where
  "beforeExecution (BeforeTransformQuery i q x) = True"
| "beforeExecution (TransformQuery i q x) = True"
| "beforeExecution (BeforeQueryExecution i q x) = True"
| "beforeExecution LogInfo = True"
| "beforeExecution ev = False"

fun afterExecution :: "('v, 'r, 'f, 'n) event \<Rightarrow> bool" where
  "afterExecution (QueryExecutionError i q e x) = True"
| "afterExecution (AfterQueryExecution i q r x) = True"
| "afterExecution (TransformRow i q row fs x) = True"
| "afterExecution (BeforeQueryResult i q r x) = True"
| "afterExecution ev = False"


subsection \<open>What the specification says of the hooks\<close>


text \<open>
  Section 4.1, step 11, in the words of the specification: a row is passed through the
  hook \<open>transformRow\<close> of every interceptor that has one, in the order of registration:
  \<open>row' = hookK (... hook2 (hook1 row))\<close>, and a hook that throws ends the chain.
\<close>

fun spec_transformRow_chain ::
  "'v queryContext \<Rightarrow> 'v query \<Rightarrow> 'f option \<Rightarrow> (nat \<times> ('v, 'r, 'f, 'n) interceptor) list
     \<Rightarrow> 'r \<Rightarrow> thrown + 'r" where
  "spec_transformRow_chain ctx q resultFields [] row = Inr row"
| "spec_transformRow_chain ctx q resultFields ((i, interceptor) # rest) row =
     (case transformRow interceptor of
        None \<Rightarrow> spec_transformRow_chain ctx q resultFields rest row
      | Some hook \<Rightarrow>
          (case hook ctx q row resultFields of
             Inl e \<Rightarrow> Inl e
           | Inr row' \<Rightarrow> spec_transformRow_chain ctx q resultFields rest row'))"

subsection \<open>Concrete calls\<close>

text \<open>
  A connection with one foreign listener of notices, errors of the driver, interceptors and
  execution routines, with natural numbers for values, rows, fields and notices. The
  theorems below are instantiated on them.
\<close>

definition exampleConnection :: connection where
  "exampleConnection =
     \<lparr>slonik_connectionId = js ''c1'', slonik_poolId = js ''p1'', slonik_transactionId = None,
      slonik_terminated = None, native = False, noticeListeners = [7]\<rparr>"

definition terminatedConnection :: connection where
  "terminatedConnection =
     exampleConnection\<lparr>slonik_terminated :=
       Some \<lparr>code = None, message = js ''Connection terminated'', constraint = None\<rparr>\<rparr>"

definition exampleEnvironment :: "nat environment" where
  "exampleEnvironment =
     \<lparr>hrtime = 1000, getStackTrace = [], createQueryId = js ''q1'', noticeListener = 8,
      normaliseQueryValues = (\<lambda>queryValues native. queryValues)\<rparr>"




definition uniqueViolation :: driver_error where
  "uniqueViolation =
     \<lparr>code = Some (js ''23505''), message = js ''duplicate key value'',
      constraint = Some (js ''users_pkey'')\<rparr>"

definition hookFailure :: thrown where
  "hookFailure =
     OriginalError \<lparr>code = None, message = js ''hook failed'', constraint = None\<rparr>"

definition noHooks :: "(nat, nat, nat, nat) interceptor" where
  "noHooks =
     \<lparr>beforeTransformQuery = None, transformQuery = None, beforeQueryExecution = None,
      queryExecutionError = None, afterQueryExecution = None, transformRow = None,
      beforeQueryResult = None\<rparr>"

definition interceptorA :: "(nat, nat, nat, nat) interceptor" where
  "interceptorA =
     noHooks\<lparr>transformQuery := Some (\<lambda>ctx q. Inr (q\<lparr>sql := sql q @ js '' A''\<rparr>)),
       queryExecutionError := Some (\<lambda>ctx q error. None),
       transformRow := Some (\<lambda>ctx q row fs. Inr (row + 1))\<rparr>"

definition interceptorB :: "(nat, nat, nat, nat) interceptor" where
  "interceptorB =
     noHooks\<lparr>transformQuery := Some (\<lambda>ctx q. Inr (q\<lparr>sql := sql q @ js '' B''\<rparr>)),
       queryExecutionError := Some (\<lambda>ctx q error. None),
       transformRow := Some (\<lambda>ctx q row fs. Inr (2 * row))\<rparr>"

definition cachedResult :: "(nat, nat, nat) queryResult" where
  "cachedResult = \<lparr>rows = Some [40, 41], fields' = None, notices = []\<rparr>"

definition cachingInterceptor :: "(nat, nat, nat, nat) interceptor" where
  "cachingInterceptor = noHooks\<lparr>beforeQueryExecution := Some (\<lambda>ctx q. Inr (Some cachedResult))\<rparr>"

definition throwingInterceptor :: "(nat, nat, nat, nat) interceptor" where
  "throwingInterceptor = noHooks\<lparr>queryExecutionError := Some (\<lambda>ctx q error. Some hookFailure)\<rparr>"

definition exampleConfiguration ::
  "(nat, nat, nat, nat) interceptor list \<Rightarrow> (nat, nat, nat, nat) clientConfiguration" where
  "exampleConfiguration xs = \<lparr>captureStackTrace = False, interceptors = xs\<rparr>"

definition failingRoutine :: "driver_error \<Rightarrow> (nat, nat, nat, nat) executionRoutine" where
  "failingRoutine error = (\<lambda>connection s vs ctx q. ([], Inl error))"

definition selectRoutine :: "(nat, nat, nat, nat) executionRoutine" where
  "selectRoutine =
     (\<lambda>connection s vs ctx q. ([5], Inr \<lparr>rows = Some [1, 2], fields' = Some 3, notices = []\<rparr>))"

definition streamRoutine :: "(nat, nat, nat, nat) executionRoutine" where
  "streamRoutine =
     (\<lambda>connection s vs ctx q. ([], Inr \<lparr>rows = None, fields' = None, notices = []\<rparr>))"


definition selectCall ::
  "(thrown + (nat, nat, nat) queryResult) \<times> connection \<times> (nat, nat, nat, nat) event list"
  where
  "selectCall =
     executeQuery exampleEnvironment exampleConnection
       (exampleConfiguration [interceptorA, noHooks, interceptorB])
       (js ''SELECT 1'') [] None selectRoutine"

definition streamCall ::
  "(thrown + (nat, nat, nat) queryResult) \<times> connection \<times> (nat, nat, nat, nat) event list"
  where
  "streamCall =
     executeQuery exampleEnvironment exampleConnection
       (exampleConfiguration [interceptorA, noHooks, interceptorB])
       (js ''SELECT 1'') [] None streamRoutine"

definition failingCall ::
  "(nat, nat, nat, nat) interceptor list \<Rightarrow> driver_error
     \<Rightarrow> (thrown + (nat, nat, nat) queryResult) \<times> connection
        \<times> (nat, nat, nat, nat) event list"
  where
  "failingCall xs error =
     executeQuery exampleEnvironment exampleConnection (exampleConfiguration xs)
       (js ''SELECT 1'') [] None (failingRoutine error)"

lemmas routine_defs =
  executeQuery_def executeActualQuery_def tryExecutionRoutine_def finishQuery_def
  transformRows_def executionContext_def catchExecutionError_def indexed_def
  connection_on_def connection_off_def js_def trim_def isWhiteSpace_def Let_def

section \<open>The events of each part of the routine\<close>

lemma run_beforeTransformQuery_events:
  "ev \<in> set (snd (run_beforeTransformQuery ctx q ixs)) \<Longrightarrow> \<exists>i x. ev = BeforeTransformQuery i q x"
  by (induction ixs) (auto split: option.splits)

lemma run_transformQuery_events:
  "ev \<in> set (snd (run_transformQuery ctx q ixs)) \<Longrightarrow> \<exists>i q' x. ev = TransformQuery i q' x"
  by (induction ixs arbitrary: q) (auto split: option.splits sum.splits)

lemma run_beforeQueryExecution_events:
  "ev \<in> set (snd (run_beforeQueryExecution ctx q ixs)) \<Longrightarrow>
     (\<exists>i x. ev = BeforeQueryExecution i q x) \<or> ev = LogInfo"
  by (induction ixs) (auto split: option.splits sum.splits)

lemma run_queryExecutionError_events:
  "ev \<in> set (snd (run_queryExecutionError ctx q err ixs)) \<Longrightarrow>
     \<exists>i x. ev = QueryExecutionError i q err x"
  by (induction ixs) (auto split: option.splits)

lemma run_afterQueryExecution_events:
  "ev \<in> set (snd (run_afterQueryExecution ctx q res ixs)) \<Longrightarrow>
     \<exists>i x. ev = AfterQueryExecution i q res x"
  by (induction ixs) (auto split: option.splits)

lemma map_transformRow_events:
  "ev \<in> set (snd (map_transformRow i hook ctx q fs rs)) \<Longrightarrow>
     \<exists>row x. ev = TransformRow i q row fs x"
  by (induction rs) (auto split: option.splits sum.splits prod.splits)

lemma run_transformRow_events:
  "(ev :: ('v, 'r, 'f, 'n) event) \<in> set (snd (run_transformRow ctx q fs rs ixs)) \<Longrightarrow>
     \<exists>i row x. ev = TransformRow i q row fs x"
proof (induction ixs arbitrary: rs)
  case Nil
  then show ?case by simp
next
  case (Cons ix ixs)
  obtain i x where ix: "ix = (i, x)" by (cases ix)
  show ?case
  proof (cases "transformRow x")
    case None
    with Cons ix show ?thesis by simp
  next
    case (Some hook)
    obtain r and evs :: "('v, 'r, 'f, 'n) event list"
      where m: "map_transformRow i hook ctx q fs rs = (r, evs)"
      by (metis surj_pair)
    have evs: "ev \<in> set evs \<Longrightarrow> \<exists>i row x. ev = TransformRow i q row fs x"
      using map_transformRow_events [of ev i hook ctx q fs rs] m by auto
    show ?thesis
    proof (cases r)
      case (Inl e)
      with Cons.prems ix Some m evs show ?thesis by simp
    next
      case (Inr rs')
      with Cons.prems ix Some m evs Cons.IH [of rs'] show ?thesis by auto
    qed
  qed
qed

lemma run_beforeQueryResult_events:
  "ev \<in> set (snd (run_beforeQueryResult ctx q res ixs)) \<Longrightarrow>
     \<exists>i x. ev = BeforeQueryResult i q res x"
  by (induction ixs) (auto split: option.splits)


lemma connection_off_on [simp]: "connection_off l (connection_on l c) = c"
  by (simp add: connection_off_def connection_on_def)

lemma noticeListeners_catchExecutionError [simp]:
  "noticeListeners (fst (catchExecutionError c error)) = noticeListeners c"
  by (simp add: catchExecutionError_def)

lemma catchExecutionError_on:
  "fst (catchExecutionError (connection_on l c) error) =
     connection_on l (fst (catchExecutionError c error))"
  by (simp add: catchExecutionError_def connection_on_def)

lemma snd_catchExecutionError_connection:
  "snd (catchExecutionError c error) = snd (catchExecutionError c' error)"
  by (simp add: catchExecutionError_def)

lemma executeActualQuery_failure:
  assumes "executionRoutine (connection_on (noticeListener env) c) (sql q)
             (normaliseQueryValues env (values' q) (native c)) ctx q = (ns, Inl error)"
  shows "executeActualQuery env c executionRoutine ctx q ixs =
     (Inl (case fst (run_queryExecutionError ctx q (snd (catchExecutionError c error)) ixs) of
             Some e \<Rightarrow> e | None \<Rightarrow> snd (catchExecutionError c error)),
      fst (catchExecutionError c error),
      [On (noticeListener env),
       ExecutionRoutine (sql q) (normaliseQueryValues env (values' q) (native c)) q (Inl error),
       LogError error, Off (noticeListener env)] @
      snd (run_queryExecutionError ctx q (snd (catchExecutionError c error)) ixs))"
  using assms snd_catchExecutionError_connection [of "connection_on (noticeListener env) c" error c]
  by (simp add: executeActualQuery_def tryExecutionRoutine_def Let_def catchExecutionError_on
      case_prod_beta split: option.splits)

lemma executeActualQuery_success:
  assumes "executionRoutine (connection_on (noticeListener env) c) (sql q)
             (normaliseQueryValues env (values' q) (native c)) ctx q = (ns, Inr result)"
  shows "executeActualQuery env c executionRoutine ctx q ixs =
     (fst (finishQuery ctx q ixs result ns), c,
      [On (noticeListener env),
       ExecutionRoutine (sql q) (normaliseQueryValues env (values' q) (native c)) q (Inr result),
       Off (noticeListener env)] @ snd (finishQuery ctx q ixs result ns))"
  using assms
  by (simp add: executeActualQuery_def tryExecutionRoutine_def Let_def case_prod_beta)


lemma transformRows_events:
  "(ev :: ('v, 'r, 'f, 'n) event) \<in> set (snd (transformRows ctx q res ixs)) \<Longrightarrow>
     \<exists>i row x. ev = TransformRow i q row (fields' res) x"
proof (cases "rows res")
  case None
  assume "ev \<in> set (snd (transformRows ctx q res ixs))"
  with None show ?thesis by (simp add: transformRows_def)
next
  case (Some rs)
  assume a: "ev \<in> set (snd (transformRows ctx q res ixs))"
  have "snd (transformRows ctx q res ixs) = snd (run_transformRow ctx q (fields' res) rs ixs)"
    using Some by (simp add: transformRows_def case_prod_beta split: sum.splits)
  with a show ?thesis using run_transformRow_events [of ev ctx q "fields' res" rs ixs] by simp
qed

lemma finishQuery_events:
  assumes "(ev :: ('v, 'r, 'f, 'n) event) \<in> set (snd (finishQuery ctx q ixs res ns))"
  shows "(\<exists>i r x. ev = AfterQueryExecution i q r x) \<or>
         (\<exists>i row fs x. ev = TransformRow i q row fs x) \<or>
         (\<exists>i r x. ev = BeforeQueryResult i q r x)"
proof -
  let ?res = "res\<lparr>notices := ns\<rparr>"
  let ?a = "run_afterQueryExecution ctx q ?res ixs :: thrown option \<times> ('v, 'r, 'f, 'n) event list"
  let ?t = "transformRows ctx q ?res ixs"
  have "set (snd (finishQuery ctx q ixs res ns)) \<subseteq>
          set (snd ?a) \<union> set (snd ?t) \<union>
          (\<Union>r. set (snd (run_beforeQueryResult ctx q r ixs)))"
    by (auto simp add: finishQuery_def Let_def case_prod_beta split: option.splits sum.splits)
  with assms consider "ev \<in> set (snd ?a)" | "ev \<in> set (snd ?t)"
    | r where "ev \<in> set (snd (run_beforeQueryResult ctx q r ixs))" by blast
  then show ?thesis
  proof cases
    case 1
    then show ?thesis using run_afterQueryExecution_events [of ev ctx q ?res ixs] by blast
  next
    case 2
    then show ?thesis using transformRows_events [of ev ctx q ?res ixs] by blast
  next
    case 3
    then show ?thesis using run_beforeQueryResult_events [of ev ctx q r ixs] by blast
  qed
qed


lemma executeActualQuery_ExecutionRoutine:
  assumes "executeActualQuery env c executionRoutine ctx q ixs = (out, c', evs)"
    and "ExecutionRoutine s nvs q' r \<in> set evs"
  shows "q' = q \<and> s = sql q \<and> nvs = normaliseQueryValues env (values' q) (native c) \<and>
         r = snd (executionRoutine (connection_on (noticeListener env) c) s nvs ctx q)"
proof -
  let ?nvs = "normaliseQueryValues env (values' q) (native c)"
  obtain ns r0 where call:
    "executionRoutine (connection_on (noticeListener env) c) (sql q) ?nvs ctx q = (ns, r0)"
    by (metis surj_pair)
  show ?thesis
  proof (cases r0)
    case (Inl error)
    from call Inl have "executionRoutine (connection_on (noticeListener env) c) (sql q) ?nvs
        ctx q = (ns, Inl error)" by simp
    from executeActualQuery_failure [where executionRoutine = executionRoutine and env = env
        and c = c and q = q and ctx = ctx and ixs = ixs, OF this] assms
    show ?thesis using call Inl
      by (auto dest: run_queryExecutionError_events)
  next
    case (Inr result)
    from call Inr have "executionRoutine (connection_on (noticeListener env) c) (sql q) ?nvs
        ctx q = (ns, Inr result)" by simp
    from executeActualQuery_success [where executionRoutine = executionRoutine and env = env
        and c = c and q = q and ctx = ctx and ixs = ixs, OF this] assms
    show ?thesis using call Inr
      by (auto dest: finishQuery_events)
  qed
qed

lemma executeQuery_executed:
  fixes env :: "'v environment" and cfg :: "('v, 'r, 'f, 'n) clientConfiguration"
  assumes run: "executeQuery env c cfg rawSql vs inh executionRoutine = (out, c', evs)"
    and ev: "ExecutionRoutine s nvs q r \<in> set evs"
  shows "\<exists>evs1 evs2 evs3 evs4.
     slonik_terminated c = None \<and>
     run_beforeTransformQuery (executionContext env c cfg rawSql vs inh)
       \<lparr>sql = rawSql, values' = vs\<rparr> (indexed (interceptors cfg)) = (None, evs1) \<and>
     run_transformQuery (executionContext env c cfg rawSql vs inh)
       \<lparr>sql = rawSql, values' = vs\<rparr> (indexed (interceptors cfg)) = (Inr q, evs2) \<and>
     run_beforeQueryExecution (executionContext env c cfg rawSql vs inh) q
       (indexed (interceptors cfg)) = (Inr None, evs3) \<and>
     executeActualQuery env c executionRoutine (executionContext env c cfg rawSql vs inh) q
       (indexed (interceptors cfg)) = (out, c', evs4) \<and>
     evs = evs1 @ evs2 @ evs3 @ evs4 \<and> ExecutionRoutine s nvs q r \<in> set evs4"
proof -
  let ?ctx = "executionContext env c cfg rawSql vs inh"
  let ?q0 = "\<lparr>sql = rawSql, values' = vs\<rparr>"
  let ?ixs = "indexed (interceptors cfg)"
  from run ev have t: "slonik_terminated c = None"
    by (cases "slonik_terminated c") (auto simp add: executeQuery_def)
  from run ev t have s1: "trim rawSql \<noteq> []" and s2: "trim rawSql \<noteq> js ''$1''"
    by (auto simp add: executeQuery_def split: if_splits)
  obtain h1 and evs1 :: "('v, 'r, 'f, 'n) event list"
    where l1: "run_beforeTransformQuery ?ctx ?q0 ?ixs = (h1, evs1)" by (metis surj_pair)
  obtain h2 and evs2 :: "('v, 'r, 'f, 'n) event list"
    where l2: "run_transformQuery ?ctx ?q0 ?ixs = (h2, evs2)" by (metis surj_pair)
  have n1: "ExecutionRoutine s nvs q r \<notin> set evs1"
    using run_beforeTransformQuery_events [of _ ?ctx ?q0 ?ixs] l1 by fastforce
  have n2: "ExecutionRoutine s nvs q r \<notin> set evs2"
    using run_transformQuery_events [of _ ?ctx ?q0 ?ixs] l2 by fastforce
  from run ev t s1 s2 l1 n1 have h1: "h1 = None"
    by (cases h1) (auto simp add: executeQuery_def Let_def)
  from run ev t s1 s2 l1 l2 n1 n2 h1 obtain qa where h2: "h2 = Inr qa"
    by (cases h2) (auto simp add: executeQuery_def Let_def)
  obtain h3 and evs3 :: "('v, 'r, 'f, 'n) event list"
    where l3: "run_beforeQueryExecution ?ctx qa ?ixs = (h3, evs3)" by (metis surj_pair)
  have n3: "ExecutionRoutine s nvs q r \<notin> set evs3"
    using run_beforeQueryExecution_events [of _ ?ctx qa ?ixs] l3 by fastforce
  from run ev t s1 s2 l1 l2 l3 n1 n2 n3 h1 h2 have h3: "h3 = Inr None"
    by (cases h3) (auto simp add: executeQuery_def Let_def split: option.splits)
  obtain o4 c4 and evs4 :: "('v, 'r, 'f, 'n) event list"
    where l4: "executeActualQuery env c executionRoutine ?ctx qa ?ixs = (o4, c4, evs4)"
    by (metis surj_pair)
  from run t s1 s2 l1 l2 l3 l4 h1 h2 h3
  have r: "out = o4" "c' = c4" "evs = evs1 @ evs2 @ evs3 @ evs4"
    by (auto simp add: executeQuery_def Let_def)
  with ev n1 n2 n3 have e4: "ExecutionRoutine s nvs q r \<in> set evs4" by auto
  from executeActualQuery_ExecutionRoutine [OF l4 e4] have "q = qa" by simp
  with t l1 l2 l3 l4 h1 h2 h3 r e4 show ?thesis by auto
qed


lemma executeQuery_cases:
  fixes env :: "'v environment" and cfg :: "('v, 'r, 'f, 'n) clientConfiguration"
    and c rawSql vs inh ctx ixs q0
  defines "ctx \<equiv> executionContext env c cfg rawSql vs inh"
    and "ixs \<equiv> indexed (interceptors cfg)"
    and "q0 \<equiv> \<lparr>sql = rawSql, values' = vs\<rparr>"
  assumes run: "executeQuery env c cfg rawSql vs inh executionRoutine = (out, c', evs)"
  obtains
    (Terminated) cause where "slonik_terminated c = Some cause"
      "out = Inl (BackendTerminatedError cause)" "c' = c" "evs = []"
  | (Invalid) reason where "slonik_terminated c = None"
      "trim rawSql = [] \<or> trim rawSql = js ''$1''"
      "out = Inl (InvalidInputError reason)" "c' = c" "evs = []"
  | (Thrown1) e evs1 where "slonik_terminated c = None"
      "run_beforeTransformQuery ctx q0 ixs = (Some e, evs1)"
      "out = Inl e" "c' = c" "evs = evs1"
  | (Thrown2) e evs1 evs2 where "slonik_terminated c = None"
      "run_beforeTransformQuery ctx q0 ixs = (None, evs1)"
      "run_transformQuery ctx q0 ixs = (Inl e, evs2)"
      "out = Inl e" "c' = c" "evs = evs1 @ evs2"
  | (Thrown3) e q evs1 evs2 evs3 where "slonik_terminated c = None"
      "run_beforeTransformQuery ctx q0 ixs = (None, evs1)"
      "run_transformQuery ctx q0 ixs = (Inr q, evs2)"
      "run_beforeQueryExecution ctx q ixs = (Inl e, evs3)"
      "out = Inl e" "c' = c" "evs = evs1 @ evs2 @ evs3"
  | (Returned) result q evs1 evs2 evs3 where "slonik_terminated c = None"
      "run_beforeTransformQuery ctx q0 ixs = (None, evs1)"
      "run_transformQuery ctx q0 ixs = (Inr q, evs2)"
      "run_beforeQueryExecution ctx q ixs = (Inr (Some result), evs3)"
      "out = Inr result" "c' = c" "evs = evs1 @ evs2 @ evs3"
  | (Executed) q evs1 evs2 evs3 evs4 where "slonik_terminated c = None"
      "trim rawSql \<noteq> []" "trim rawSql \<noteq> js ''$1''"
      "run_beforeTransformQuery ctx q0 ixs = (None, evs1)"
      "run_transformQuery ctx q0 ixs = (Inr q, evs2)"
      "run_beforeQueryExecution ctx q ixs = (Inr None, evs3)"
      "executeActualQuery env c executionRoutine ctx q ixs = (out, c', evs4)"
      "evs = evs1 @ evs2 @ evs3 @ evs4"
proof (cases "slonik_terminated c")
  case (Some cause)
  from run Some have "out = Inl (BackendTerminatedError cause)" "c' = c" "evs = []"
    by (simp_all add: executeQuery_def)
  then show ?thesis by (rule Terminated [OF Some])
next
  case None
  show ?thesis
  proof (cases "trim rawSql = [] \<or> trim rawSql = js ''$1''")
    case True
    from run None True have "\<exists>reason. out = Inl (InvalidInputError reason)" "c' = c" "evs = []"
      by (auto simp add: executeQuery_def split: if_splits)
    then show ?thesis using Invalid [OF None True] by blast
  next
    case False
    have pipe: "(out, c', evs) =
      (case run_beforeTransformQuery ctx q0 ixs of
         (Some e, evs1) \<Rightarrow> (Inl e, c, evs1)
       | (None, evs1) \<Rightarrow>
           (case run_transformQuery ctx q0 ixs of
              (Inl e, evs2) \<Rightarrow> (Inl e, c, evs1 @ evs2)
            | (Inr actualQuery, evs2) \<Rightarrow>
                (case run_beforeQueryExecution ctx actualQuery ixs of
                   (Inl e, evs3) \<Rightarrow> (Inl e, c, evs1 @ evs2 @ evs3)
                 | (Inr (Some result), evs3) \<Rightarrow> (Inr result, c, evs1 @ evs2 @ evs3)
                 | (Inr None, evs3) \<Rightarrow>
                     (case executeActualQuery env c executionRoutine ctx actualQuery ixs of
                        (outcome, connection', evs4) \<Rightarrow>
                          (outcome, connection', evs1 @ evs2 @ evs3 @ evs4)))))"
      using run [symmetric] None False unfolding ctx_def ixs_def q0_def
      by (simp add: executeQuery_def Let_def)
    obtain h1 and evs1 :: "('v, 'r, 'f, 'n) event list"
      where l1: "run_beforeTransformQuery ctx q0 ixs = (h1, evs1)" by (metis surj_pair)
    show ?thesis
    proof (cases h1)
      case (Some e)
      from pipe l1 Some have "out = Inl e" "c' = c" "evs = evs1" by simp_all
      then show ?thesis by (rule Thrown1 [OF None l1 [unfolded Some]])
    next
      case h1: None
      obtain h2 and evs2 :: "('v, 'r, 'f, 'n) event list"
        where l2: "run_transformQuery ctx q0 ixs = (h2, evs2)" by (metis surj_pair)
      show ?thesis
      proof (cases h2)
        case (Inl e)
        from pipe l1 h1 l2 Inl have "out = Inl e" "c' = c" "evs = evs1 @ evs2" by simp_all
        then show ?thesis by (rule Thrown2 [OF None l1 [unfolded h1] l2 [unfolded Inl]])
      next
        case (Inr q)
        obtain h3 and evs3 :: "('v, 'r, 'f, 'n) event list"
          where l3: "run_beforeQueryExecution ctx q ixs = (h3, evs3)" by (metis surj_pair)
        show ?thesis
        proof (cases h3)
          case (Inl e)
          from pipe l1 h1 l2 Inr l3 Inl
          have "out = Inl e" "c' = c" "evs = evs1 @ evs2 @ evs3" by simp_all
          then show ?thesis
            by (rule Thrown3 [OF None l1 [unfolded h1] l2 [unfolded Inr] l3 [unfolded Inl]])
        next
          case h3: (Inr r3)
          show ?thesis
          proof (cases r3)
            case (Some result)
            from pipe l1 h1 l2 Inr l3 h3 Some
            have "out = Inr result" "c' = c" "evs = evs1 @ evs2 @ evs3" by simp_all
            then show ?thesis
              by (rule Returned [OF None l1 [unfolded h1] l2 [unfolded Inr]
                    l3 [unfolded h3 Some]])
          next
            case r3: None
            obtain o4 c4 and evs4 :: "('v, 'r, 'f, 'n) event list"
              where l4: "executeActualQuery env c executionRoutine ctx q ixs = (o4, c4, evs4)"
              by (metis surj_pair)
            from pipe l1 h1 l2 Inr l3 h3 r3 l4
            have r: "out = o4" "c' = c4" "evs = evs1 @ evs2 @ evs3 @ evs4" by simp_all
            from False have f: "trim rawSql \<noteq> []" "trim rawSql \<noteq> js ''$1''" by simp_all
            show ?thesis
              by (rule Executed [OF None f l1 [unfolded h1] l2 [unfolded Inr]
                    l3 [unfolded h3 r3] l4 [folded r] r(3)])
          qed
        qed
      qed
    qed
  qed
qed

lemma beforeExecution_events:
  "run_beforeTransformQuery ctx q ixs = (h1, evs1) \<Longrightarrow> ev \<in> set evs1 \<Longrightarrow> beforeExecution ev"
  "run_transformQuery ctx q ixs = (h2, evs2) \<Longrightarrow> ev \<in> set evs2 \<Longrightarrow> beforeExecution ev"
  "run_beforeQueryExecution ctx q ixs = (h3, evs3) \<Longrightarrow> ev \<in> set evs3 \<Longrightarrow> beforeExecution ev"
  using run_beforeTransformQuery_events [of ev ctx q ixs]
    run_transformQuery_events [of ev ctx q ixs]
    run_beforeQueryExecution_events [of ev ctx q ixs]
  by auto




lemma queryExecutionError_eventsD:
  "run_queryExecutionError ctx q err ixs = (h, evs) \<Longrightarrow> ev \<in> set evs \<Longrightarrow>
     \<exists>i x. ev = QueryExecutionError i q err x"
  using run_queryExecutionError_events [of ev ctx q err ixs] by simp



lemma executeActualQuery_shape:
  fixes env :: "'v environment"
  assumes "executeActualQuery env c executionRoutine ctx q ixs =
      (out, c', (evs :: ('v, 'r, 'f, 'n) event list))"
  shows "\<exists>r post.
     evs = [On (noticeListener env),
            ExecutionRoutine (sql q) (normaliseQueryValues env (values' q) (native c)) q r] @
           (case r of Inl error \<Rightarrow> [LogError error] | Inr result \<Rightarrow> []) @
           [Off (noticeListener env)] @ post \<and>
     (\<forall>ev\<in>set post. afterExecution ev) \<and>
     noticeListeners c' = noticeListeners c"
proof -
  let ?nvs = "normaliseQueryValues env (values' q) (native c)"
  obtain ns r0 where call:
    "executionRoutine (connection_on (noticeListener env) c) (sql q) ?nvs ctx q = (ns, r0)"
    by (metis surj_pair)
  show ?thesis
  proof (cases r0)
    case (Inl error)
    let ?post = "snd (run_queryExecutionError ctx q (snd (catchExecutionError c error)) ixs)
      :: ('v, 'r, 'f, 'n) event list"
    from call Inl have "executionRoutine (connection_on (noticeListener env) c) (sql q) ?nvs
        ctx q = (ns, Inl error)" by simp
    from executeActualQuery_failure [where executionRoutine = executionRoutine and env = env
        and c = c and q = q and ctx = ctx and ixs = ixs, OF this] assms
    have a: "evs = [On (noticeListener env), ExecutionRoutine (sql q) ?nvs q (Inl error)] @
           (case (Inl error :: driver_error + ('r, 'f, 'n) queryResult) of
              Inl error \<Rightarrow> [LogError error] | Inr result \<Rightarrow> []) @
           [Off (noticeListener env)] @ ?post"
      and b: "noticeListeners c' = noticeListeners c" by auto
    have "\<forall>ev\<in>set ?post. afterExecution ev"
      using run_queryExecutionError_events [of _ ctx q "snd (catchExecutionError c error)" ixs]
      by fastforce
    with a b show ?thesis by blast
  next
    case (Inr result)
    let ?post = "snd (finishQuery ctx q ixs result ns) :: ('v, 'r, 'f, 'n) event list"
    from call Inr have "executionRoutine (connection_on (noticeListener env) c) (sql q) ?nvs
        ctx q = (ns, Inr result)" by simp
    from executeActualQuery_success [where executionRoutine = executionRoutine and env = env
        and c = c and q = q and ctx = ctx and ixs = ixs, OF this] assms
    have a: "evs = [On (noticeListener env), ExecutionRoutine (sql q) ?nvs q (Inr result)] @
           (case (Inr result :: driver_error + ('r, 'f, 'n) queryResult) of
              Inl error \<Rightarrow> [LogError error] | Inr result \<Rightarrow> []) @
           [Off (noticeListener env)] @ ?post"
      and b: "noticeListeners c' = noticeListeners c" by auto
    have "\<forall>ev\<in>set ?post. afterExecution ev"
      using finishQuery_events [of _ ctx q ixs result ns] by fastforce
    with a b show ?thesis by blast
  qed
qed

lemma noticeListeners_executeQuery:
  assumes "executeQuery env c cfg rawSql vs inh executionRoutine = (out, c', evs)"
  shows "noticeListeners c' = noticeListeners c"
  using assms
proof (cases rule: executeQuery_cases)
  case (Executed q evs1 evs2 evs3 evs4)
  from executeActualQuery_shape [OF Executed(7)] show ?thesis by blast
qed simp_all

section \<open>The loop of the hooks transformQuery\<close>




section \<open>The rows of a result\<close>

lemma map_transformRow_result:
  "map_transformRow i hook ctx q fs rs = (Inr rs', (evs :: ('v, 'r, 'f, 'n) event list)) \<Longrightarrow>
     map Inr rs' = map (\<lambda>row. hook ctx q row fs) rs"
proof (induction rs arbitrary: rs' evs)
  case Nil
  then show ?case by simp
next
  case (Cons row rs)
  from Cons.prems obtain row' where h: "hook ctx q row fs = Inr row'"
    by (cases "hook ctx q row fs") auto
  obtain r and tr :: "('v, 'r, 'f, 'n) event list"
    where rest: "map_transformRow i hook ctx q fs rs = (r, tr)"
    by (metis surj_pair)
  from Cons.prems h rest obtain rs'' where r: "r = Inr rs''" and rs': "rs' = row' # rs''"
    by (cases r) auto
  from Cons.IH [OF rest [unfolded r]] h rs' show ?case by simp
qed

lemma run_transformRow_chain:
  "run_transformRow ctx q fs rs ixs = (Inr rs', (evs :: ('v, 'r, 'f, 'n) event list)) \<Longrightarrow>
     map Inr rs' = map (spec_transformRow_chain ctx q fs ixs) rs"
proof (induction ixs arbitrary: rs rs' evs)
  case Nil
  then show ?case by simp
next
  case (Cons ix ixs)
  obtain i x where ix: "ix = (i, x)" by (cases ix)
  show ?case
  proof (cases "transformRow x")
    case None
    with Cons ix show ?thesis by simp
  next
    case (Some hook)
    obtain r and tr :: "('v, 'r, 'f, 'n) event list"
      where m: "map_transformRow i hook ctx q fs rs = (r, tr)" by (metis surj_pair)
    with Cons.prems ix Some obtain rs1 where r: "r = Inr rs1" by (cases r) auto
    obtain r2 and tr2 :: "('v, 'r, 'f, 'n) event list"
      where rest: "run_transformRow ctx q fs rs1 ixs = (r2, tr2)" by (metis surj_pair)
    with Cons.prems ix Some m r have r2: "r2 = Inr rs'" by simp
    from Cons.IH [OF rest [unfolded r2]]
    have ih: "map Inr rs' = map (spec_transformRow_chain ctx q fs ixs) rs1" .
    from map_transformRow_result [OF m [unfolded r]]
    have first: "map Inr rs1 = map (\<lambda>row. hook ctx q row fs) rs" .
    then have len: "length rs1 = length rs" by (metis length_map)
    have "map (spec_transformRow_chain ctx q fs ixs) rs1 =
          map (spec_transformRow_chain ctx q fs ((i, x) # ixs)) rs"
    proof (rule nth_equalityI)
      show "length (map (spec_transformRow_chain ctx q fs ixs) rs1) =
            length (map (spec_transformRow_chain ctx q fs ((i, x) # ixs)) rs)"
        using len by simp
    next
      fix k
      assume "k < length (map (spec_transformRow_chain ctx q fs ixs) rs1)"
      then have k: "k < length rs1" by simp
      with len have k': "k < length rs" by simp
      from first k k' have "hook ctx q (rs ! k) fs = Inr (rs1 ! k)"
        by (metis nth_map)
      with k k' Some
      show "map (spec_transformRow_chain ctx q fs ixs) rs1 ! k =
            map (spec_transformRow_chain ctx q fs ((i, x) # ixs)) rs ! k"
        by simp
    qed
    with ih ix show ?thesis by simp
  qed
qed

lemma transformRows_result:
  assumes "transformRows ctx q res ixs = (Inr res', (evs :: ('v, 'r, 'f, 'n) event list))"
  shows "case rows res of
           None \<Rightarrow> res' = res \<and> evs = []
         | Some rs \<Rightarrow> \<exists>rs'. res' = res\<lparr>rows := Some rs'\<rparr> \<and>
             map Inr rs' = map (spec_transformRow_chain ctx q (fields' res) ixs) rs"
proof (cases "rows res")
  case None
  with assms show ?thesis by (simp add: transformRows_def)
next
  case (Some rs)
  obtain r and tr :: "('v, 'r, 'f, 'n) event list"
    where l: "run_transformRow ctx q (fields' res) rs ixs = (r, tr)" by (metis surj_pair)
  with assms Some obtain rs' where r: "r = Inr rs'" and res': "res' = res\<lparr>rows := Some rs'\<rparr>"
    by (cases r) (auto simp add: transformRows_def)
  from run_transformRow_chain [OF l [unfolded r]] res' Some show ?thesis by auto
qed

lemma finishQuery_rows:
  assumes "finishQuery ctx q ixs raw ns = (Inr res, (evs :: ('v, 'r, 'f, 'n) event list))"
  shows "case rows raw of
           None \<Rightarrow> rows res = None
         | Some rs \<Rightarrow> \<exists>rs'. rows res = Some rs' \<and>
             map Inr rs' = map (spec_transformRow_chain ctx q (fields' raw) ixs) rs"
proof -
  let ?raw = "raw\<lparr>notices := ns\<rparr>"
  obtain h1 and evs1 :: "('v, 'r, 'f, 'n) event list"
    where l1: "run_afterQueryExecution ctx q ?raw ixs = (h1, evs1)" by (metis surj_pair)
  obtain h2 and evs2 :: "('v, 'r, 'f, 'n) event list"
    where l2: "transformRows ctx q ?raw ixs = (h2, evs2)" by (metis surj_pair)
  from assms l1 have h1: "h1 = None"
    by (cases h1) (auto simp add: finishQuery_def Let_def)
  from assms l1 h1 l2 obtain res' where h2: "h2 = Inr res'"
    by (cases h2) (auto simp add: finishQuery_def Let_def)
  from assms l1 h1 l2 h2 have "res = res'"
    by (auto simp add: finishQuery_def Let_def split: prod.splits option.splits)
  with transformRows_result [OF l2 [unfolded h2]] show ?thesis
    by (auto split: option.splits)
qed

lemma finishQuery_without_rows:
  assumes "rows raw = None"
    and "(ev :: ('v, 'r, 'f, 'n) event) \<in> set (snd (finishQuery ctx q ixs raw ns))"
  shows "(\<exists>i r x. ev = AfterQueryExecution i q r x) \<or> (\<exists>i r x. ev = BeforeQueryResult i q r x)"
proof -
  let ?raw = "raw\<lparr>notices := ns\<rparr>"
  let ?a = "run_afterQueryExecution ctx q ?raw ixs :: thrown option \<times> ('v, 'r, 'f, 'n) event list"
  have t: "transformRows ctx q ?raw ixs = (Inr ?raw, ([] :: ('v, 'r, 'f, 'n) event list))"
    using assms(1) by (simp add: transformRows_def)
  have "set (snd (finishQuery ctx q ixs raw ns)) \<subseteq>
          set (snd ?a) \<union> set (snd (run_beforeQueryResult ctx q ?raw ixs))"
    by (auto simp add: finishQuery_def Let_def t case_prod_beta split: option.splits)
  with assms(2) consider "ev \<in> set (snd ?a)"
    | "ev \<in> set (snd (run_beforeQueryResult ctx q ?raw ixs))" by blast
  then show ?thesis
  proof cases
    case 1
    then show ?thesis using run_afterQueryExecution_events [of ev ctx q ?raw ixs] by blast
  next
    case 2
    then show ?thesis using run_beforeQueryResult_events [of ev ctx q ?raw ixs] by blast
  qed
qed

section \<open>A call whose execution routine fails\<close>


lemma run_queryExecutionError_thrown:
  "run_queryExecutionError ctx q err ixs = (h, (evs :: ('v, 'r, 'f, 'n) event list)) \<Longrightarrow>
     (case h of
        None \<Rightarrow> \<forall>ev\<in>set evs. \<exists>j. ev = QueryExecutionError j q err None
      | Some x \<Rightarrow> \<exists>pre i. evs = pre @ [QueryExecutionError i q err (Some x)] \<and>
          (\<forall>ev\<in>set pre. \<exists>j. ev = QueryExecutionError j q err None))"
proof (induction ixs arbitrary: h evs)
  case Nil
  then show ?case by simp
next
  case (Cons ix ixs)
  obtain i x where ix: "ix = (i, x)" by (cases ix)
  show ?case
  proof (cases "queryExecutionError x")
    case None
    with Cons ix show ?thesis by simp
  next
    case (Some hook)
    show ?thesis
    proof (cases "hook ctx q err")
      case (Some e)
      with Cons.prems ix \<open>queryExecutionError x = Some hook\<close>
      have "h = Some e" and "evs = [] @ [QueryExecutionError i q err (Some e)]" by auto
      then show ?thesis by (simp del: append_Nil)
    next
      case None
      obtain h' and evs' :: "('v, 'r, 'f, 'n) event list"
        where rest: "run_queryExecutionError ctx q err ixs = (h', evs')" by (metis surj_pair)
      with Cons.prems ix \<open>queryExecutionError x = Some hook\<close> None
      have hh: "h = h'" and ee: "evs = QueryExecutionError i q err None # evs'" by auto
      show ?thesis
      proof (cases h')
        case None
        with Cons.IH [OF rest] hh ee show ?thesis by auto
      next
        case (Some y)
        with Cons.IH [OF rest] obtain pre k where
          "evs' = pre @ [QueryExecutionError k q err (Some y)]"
          "\<forall>ev\<in>set pre. \<exists>j. ev = QueryExecutionError j q err None" by auto
        with hh ee Some show ?thesis
          by (auto intro!: exI [of _ "QueryExecutionError i q err None # pre"])
      qed
    qed
  qed
qed



lemma tryExecutionRoutine_failure:
  assumes "executionRoutine (connection_on (noticeListener env) c) (sql q)
             (normaliseQueryValues env (values' q) (native c)) ctx q = (ns, Inl error)"
  shows "fst (tryExecutionRoutine env c executionRoutine ctx q) =
           Inl (snd (catchExecutionError c error))"
  using assms snd_catchExecutionError_connection [of "connection_on (noticeListener env) c" error c]
  by (simp add: tryExecutionRoutine_def Let_def case_prod_beta)

lemma executeQuery_failed:
  fixes env :: "'v environment" and cfg :: "('v, 'r, 'f, 'n) clientConfiguration"
  assumes run: "executeQuery env c cfg rawSql vs inh executionRoutine = (out, c', evs)"
    and ev: "ExecutionRoutine s nvs q (Inl error) \<in> set evs"
  shows "\<exists>pre h post.
     (\<forall>ev\<in>set pre. beforeExecution ev) \<and>
     run_queryExecutionError (executionContext env c cfg rawSql vs inh) q
       (snd (catchExecutionError c error)) (indexed (interceptors cfg)) = (h, post) \<and>
     evs = pre @ [On (noticeListener env), ExecutionRoutine s nvs q (Inl error),
                  LogError error, Off (noticeListener env)] @ post \<and>
     out = Inl (case h of Some e \<Rightarrow> e | None \<Rightarrow> snd (catchExecutionError c error)) \<and>
     c' = fst (catchExecutionError c error) \<and>
     fst (tryExecutionRoutine env c executionRoutine (executionContext env c cfg rawSql vs inh)
            q) = Inl (snd (catchExecutionError c error))"
proof -
  let ?ctx = "executionContext env c cfg rawSql vs inh"
  let ?ixs = "indexed (interceptors cfg)"
  let ?nvs = "normaliseQueryValues env (values' q) (native c)"
  let ?cl = "snd (catchExecutionError c error)"
  from executeQuery_executed [OF run ev] obtain evs1 evs2 evs3 evs4 where
    l1: "run_beforeTransformQuery ?ctx \<lparr>sql = rawSql, values' = vs\<rparr> ?ixs = (None, evs1)"
    and l2: "run_transformQuery ?ctx \<lparr>sql = rawSql, values' = vs\<rparr> ?ixs = (Inr q, evs2)"
    and l3: "run_beforeQueryExecution ?ctx q ?ixs = (Inr None, evs3)"
    and l4: "executeActualQuery env c executionRoutine ?ctx q ?ixs = (out, c', evs4)"
    and evs: "evs = evs1 @ evs2 @ evs3 @ evs4"
    and e4: "ExecutionRoutine s nvs q (Inl error) \<in> set evs4" by blast
  have pre: "\<forall>ev\<in>set (evs1 @ evs2 @ evs3). beforeExecution ev"
    using l1 l2 l3 by (auto dest: beforeExecution_events)
  from executeActualQuery_ExecutionRoutine [OF l4 e4]
  have s: "s = sql q" and nvs: "nvs = ?nvs"
    and "snd (executionRoutine (connection_on (noticeListener env) c) (sql q) ?nvs ?ctx q) =
       Inl error" by simp_all
  then obtain ns where call:
    "executionRoutine (connection_on (noticeListener env) c) (sql q) ?nvs ?ctx q =
       (ns, Inl error)"
    by (metis prod.collapse)
  obtain h and post :: "('v, 'r, 'f, 'n) event list"
    where q: "run_queryExecutionError ?ctx q ?cl ?ixs = (h, post)" by (metis surj_pair)
  from executeActualQuery_failure [where executionRoutine = executionRoutine and env = env
      and c = c and q = q and ctx = ?ctx and ixs = ?ixs, OF call] l4 q
  have "out = Inl (case h of Some e \<Rightarrow> e | None \<Rightarrow> ?cl)"
    and "c' = fst (catchExecutionError c error)"
    and "evs4 = [On (noticeListener env), ExecutionRoutine (sql q) ?nvs q (Inl error),
       LogError error, Off (noticeListener env)] @ post"
    by simp_all
  with pre q evs s nvs tryExecutionRoutine_failure [where executionRoutine = executionRoutine
      and env = env and c = c and q = q and ctx = ?ctx, OF call]
  show ?thesis
    by (intro exI [of _ "evs1 @ evs2 @ evs3"] exI [of _ h] exI [of _ post]) simp
qed

lemma queryExecutionError_after_failure:
  fixes env :: "'v environment" and cfg :: "('v, 'r, 'f, 'n) clientConfiguration"
  assumes run: "executeQuery env c cfg rawSql vs inh executionRoutine = (out, c', evs)"
    and ev: "QueryExecutionError i q e x \<in> set evs"
  shows "\<exists>s nvs error. ExecutionRoutine s nvs q (Inl error) \<in> set evs"
  using run
proof (cases rule: executeQuery_cases)
  case (Terminated cause)
  with ev show ?thesis by simp
next
  case (Invalid reason)
  with ev show ?thesis by simp
next
  case (Thrown1 e evs1)
  with ev show ?thesis by (auto dest: beforeExecution_events)
next
  case (Thrown2 e evs1 evs2)
  with ev show ?thesis by (auto dest: beforeExecution_events)
next
  case (Thrown3 e qa evs1 evs2 evs3)
  with ev show ?thesis by (auto dest: beforeExecution_events)
next
  case (Returned result qa evs1 evs2 evs3)
  with ev show ?thesis by (auto dest: beforeExecution_events)
next
  case (Executed qa evs1 evs2 evs3 evs4)
  let ?ctx = "executionContext env c cfg rawSql vs inh"
  let ?ixs = "indexed (interceptors cfg)"
  let ?nvs = "normaliseQueryValues env (values' qa) (native c)"
  from Executed ev have e4: "QueryExecutionError i q e x \<in> set evs4"
    by (auto dest: beforeExecution_events)
  obtain ns r0 where call:
    "executionRoutine (connection_on (noticeListener env) c) (sql qa) ?nvs ?ctx qa = (ns, r0)"
    by (metis surj_pair)
  show ?thesis
  proof (cases r0)
    case (Inl error)
    from call Inl have "executionRoutine (connection_on (noticeListener env) c) (sql qa) ?nvs
        ?ctx qa = (ns, Inl error)" by simp
    from executeActualQuery_failure [where executionRoutine = executionRoutine and env = env
        and c = c and q = qa and ctx = ?ctx and ixs = ?ixs, OF this] Executed(7)
    have evs4: "evs4 = [On (noticeListener env), ExecutionRoutine (sql qa) ?nvs qa (Inl error),
        LogError error, Off (noticeListener env)] @
        snd (run_queryExecutionError ?ctx qa (snd (catchExecutionError c error)) ?ixs)"
      by simp
    with e4 have "q = qa" by (auto dest: run_queryExecutionError_events)
    with evs4 Executed(8) show ?thesis by auto
  next
    case (Inr result)
    from call Inr have "executionRoutine (connection_on (noticeListener env) c) (sql qa) ?nvs
        ?ctx qa = (ns, Inr result)" by simp
    from executeActualQuery_success [where executionRoutine = executionRoutine and env = env
        and c = c and q = qa and ctx = ?ctx and ixs = ?ixs, OF this] Executed(7) e4
    have "QueryExecutionError i q e x \<in> set (snd (finishQuery ?ctx qa ?ixs result ns))" by auto
    from finishQuery_events [OF this] show ?thesis by simp
  qed
qed




lemma registered_only_for_an_execution:
  fixes env :: "'v environment" and cfg :: "('v, 'r, 'f, 'n) clientConfiguration"
  assumes run: "executeQuery env c cfg rawSql vs inh executionRoutine = (out, c', evs)"
    and ev: "On l \<in> set evs"
  shows "\<exists>s nvs q r. ExecutionRoutine s nvs q r \<in> set evs"
  using run
proof (cases rule: executeQuery_cases)
  case (Terminated cause)
  with ev show ?thesis by simp
next
  case (Invalid reason)
  with ev show ?thesis by simp
next
  case (Thrown1 e evs1)
  with ev show ?thesis by (auto dest: beforeExecution_events)
next
  case (Thrown2 e evs1 evs2)
  with ev show ?thesis by (auto dest: beforeExecution_events)
next
  case (Thrown3 e qa evs1 evs2 evs3)
  with ev show ?thesis by (auto dest: beforeExecution_events)
next
  case (Returned result qa evs1 evs2 evs3)
  with ev show ?thesis by (auto dest: beforeExecution_events)
next
  case (Executed qa evs1 evs2 evs3 evs4)
  from executeActualQuery_shape [OF Executed(7)] obtain r post where
    "evs4 = [On (noticeListener env),
       ExecutionRoutine (sql qa) (normaliseQueryValues env (values' qa) (native c)) qa r] @
      (case r of Inl error \<Rightarrow> [LogError error] | Inr result \<Rightarrow> []) @
      [Off (noticeListener env)] @ post" by blast
  with Executed(8)
  have "ExecutionRoutine (sql qa) (normaliseQueryValues env (values' qa) (native c)) qa r
      \<in> set evs" by simp
  then show ?thesis by blast
qed

section \<open>The concrete calls, evaluated\<close>


lemma selectCall_eval:
  "selectCall =
     (Inr \<lparr>rows = Some [4, 6], fields' = Some 3, notices = [5]\<rparr>, exampleConnection,
      [TransformQuery 0 \<lparr>sql = js ''SELECT 1'', values' = []\<rparr>
         (Inr \<lparr>sql = js ''SELECT 1 A'', values' = []\<rparr>),
       TransformQuery 2 \<lparr>sql = js ''SELECT 1 A'', values' = []\<rparr>
         (Inr \<lparr>sql = js ''SELECT 1 A B'', values' = []\<rparr>),
       On 8,
       ExecutionRoutine (js ''SELECT 1 A B'') [] \<lparr>sql = js ''SELECT 1 A B'', values' = []\<rparr>
         (Inr \<lparr>rows = Some [1, 2], fields' = Some 3, notices = []\<rparr>),
       Off 8,
       TransformRow 0 \<lparr>sql = js ''SELECT 1 A B'', values' = []\<rparr> 1 (Some 3) (Inr 2),
       TransformRow 0 \<lparr>sql = js ''SELECT 1 A B'', values' = []\<rparr> 2 (Some 3) (Inr 3),
       TransformRow 2 \<lparr>sql = js ''SELECT 1 A B'', values' = []\<rparr> 2 (Some 3) (Inr 4),
       TransformRow 2 \<lparr>sql = js ''SELECT 1 A B'', values' = []\<rparr> 3 (Some 3) (Inr 6)])"
  by (simp add: routine_defs exampleEnvironment_def exampleConnection_def
      exampleConfiguration_def noHooks_def
      selectCall_def interceptorA_def interceptorB_def selectRoutine_def)
lemma streamCall_eval:
  "streamCall =
     (Inr \<lparr>rows = None, fields' = None, notices = []\<rparr>, exampleConnection,
      [TransformQuery 0 \<lparr>sql = js ''SELECT 1'', values' = []\<rparr>
         (Inr \<lparr>sql = js ''SELECT 1 A'', values' = []\<rparr>),
       TransformQuery 2 \<lparr>sql = js ''SELECT 1 A'', values' = []\<rparr>
         (Inr \<lparr>sql = js ''SELECT 1 A B'', values' = []\<rparr>),
       On 8,
       ExecutionRoutine (js ''SELECT 1 A B'') [] \<lparr>sql = js ''SELECT 1 A B'', values' = []\<rparr>
         (Inr \<lparr>rows = None, fields' = None, notices = []\<rparr>),
       Off 8])"
  by (simp add: routine_defs exampleEnvironment_def exampleConnection_def
      exampleConfiguration_def noHooks_def
      streamCall_def interceptorA_def interceptorB_def streamRoutine_def)


lemma throwing_hook_call_eval:
  "failingCall [interceptorA, throwingInterceptor, interceptorB] uniqueViolation =
     (Inl hookFailure, exampleConnection,
      [TransformQuery 0 \<lparr>sql = js ''SELECT 1'', values' = []\<rparr>
         (Inr \<lparr>sql = js ''SELECT 1 A'', values' = []\<rparr>),
       TransformQuery 2 \<lparr>sql = js ''SELECT 1 A'', values' = []\<rparr>
         (Inr \<lparr>sql = js ''SELECT 1 A B'', values' = []\<rparr>),
       On 8,
       ExecutionRoutine (js ''SELECT 1 A B'') [] \<lparr>sql = js ''SELECT 1 A B'', values' = []\<rparr>
         (Inl uniqueViolation),
       LogError uniqueViolation,
       Off 8,
       QueryExecutionError 0 \<lparr>sql = js ''SELECT 1 A B'', values' = []\<rparr>
         (UniqueIntegrityConstraintViolationError uniqueViolation (Some (js ''users_pkey'')))
         None,
       QueryExecutionError 1 \<lparr>sql = js ''SELECT 1 A B'', values' = []\<rparr>
         (UniqueIntegrityConstraintViolationError uniqueViolation (Some (js ''users_pkey'')))
         (Some hookFailure)])"
  by (simp add: routine_defs exampleEnvironment_def exampleConnection_def
      exampleConfiguration_def noHooks_def
      failingCall_def interceptorA_def interceptorB_def throwingInterceptor_def
      hookFailure_def failingRoutine_def uniqueViolation_def)




section \<open>The preconditions of a call\<close>

text \<open>
  Claim C4. A call on a connection whose termination flag is set fails at once with
  \<open>BackendTerminatedError\<close>, which carries the stored cause; the connection is left as it
  is and the trace is empty: no hook of any interceptor is invoked (nor is anything else).
\<close>

theorem terminated_connection_fails_at_once:
  "slonik_terminated connection = Some cause \<Longrightarrow>
   executeQuery env connection clientConfiguration rawSql vs inheritedQueryId executionRoutine =
     (Inl (BackendTerminatedError cause), connection, [])"
  by (simp add: executeQuery_def)

theorem terminated_connection_fails_at_once_witness:
  "slonik_terminated terminatedConnection =
     Some \<lparr>code = None, message = js ''Connection terminated'', constraint = None\<rparr> \<and>
   executeQuery exampleEnvironment terminatedConnection
       (exampleConfiguration [interceptorA, cachingInterceptor]) (js ''SELECT 1'') [] None
       selectRoutine =
     (Inl (BackendTerminatedError
        \<lparr>code = None, message = js ''Connection terminated'', constraint = None\<rparr>),
      terminatedConnection, [])"
  using terminated_connection_fails_at_once [of terminatedConnection
      "\<lparr>code = None, message = js ''Connection terminated'', constraint = None\<rparr>"
      exampleEnvironment "exampleConfiguration [interceptorA, cachingInterceptor]"
      "js ''SELECT 1''" "[]" None selectRoutine]
  by (simp add: terminatedConnection_def)

text \<open>
  Claim C3, as it is stated, fails on a connection whose termination flag is set: the
  flag is tested first (line 55), so the call with an empty SQL text fails with
  \<open>BackendTerminatedError\<close> and not with \<open>InvalidInputError\<close>.
\<close>

theorem empty_sql_on_terminated_connection:
  "trim (js []) = [] \<and>
   fst (executeQuery exampleEnvironment terminatedConnection (exampleConfiguration [])
          (js []) [] None selectRoutine) =
     Inl (BackendTerminatedError
        \<lparr>code = None, message = js ''Connection terminated'', constraint = None\<rparr>) \<and>
   fst (executeQuery exampleEnvironment terminatedConnection (exampleConfiguration [])
          (js []) [] None selectRoutine) \<noteq>
     Inl (InvalidInputError (js ''Unexpected SQL input. Query cannot be empty.''))"
  by (simp add: executeQuery_def terminatedConnection_def trim_def js_def)

text \<open>
  Claim C3, amended. On a connection whose termination flag is not set, a call whose SQL
  text is, once trimmed, empty or the token \<^verbatim>\<open>$1\<close> fails with \<open>InvalidInputError\<close>; the
  connection is left as it is and the trace is empty: no hook of an interceptor is invoked
  and the execution routine is not called.
\<close>

theorem blank_sql_is_invalid_input:
  assumes "slonik_terminated connection = None"
    and "trim rawSql = [] \<or> trim rawSql = js ''$1''"
  shows "executeQuery env connection clientConfiguration rawSql vs inheritedQueryId
           executionRoutine =
     (Inl (InvalidInputError
        (if trim rawSql = [] then js ''Unexpected SQL input. Query cannot be empty.''
         else js ''Unexpected SQL input. Query cannot be empty. Found only value binding.'')),
      connection, [])"
  using assms by (auto simp add: executeQuery_def)

theorem blank_sql_is_invalid_input_witness:
  "slonik_terminated exampleConnection = None \<and>
   (trim (js ''  $1 '') = [] \<or> trim (js ''  $1 '') = js ''$1'') \<and>
   executeQuery exampleEnvironment exampleConnection
       (exampleConfiguration [interceptorA, cachingInterceptor]) (js ''  $1 '') [] None
       selectRoutine =
     (Inl (InvalidInputError
        (js ''Unexpected SQL input. Query cannot be empty. Found only value binding.'')),
      exampleConnection, [])"
proof -
  have a: "slonik_terminated exampleConnection = None"
    by (simp add: exampleConnection_def)
  have b: "trim (js ''  $1 '') = js ''$1''"
    by (simp add: trim_def js_def isWhiteSpace_def)
  have c: "trim (js ''  $1 '') \<noteq> []"
    by (simp add: trim_def js_def isWhiteSpace_def)
  from blank_sql_is_invalid_input [OF a, of "js ''  $1 ''" exampleEnvironment
      "exampleConfiguration [interceptorA, cachingInterceptor]" "[]" None selectRoutine] a b c
  show ?thesis by simp
qed

section \<open>The hooks transformQuery\<close>



section \<open>The result of a hook in place of the execution\<close>



section \<open>The notice listener\<close>

text \<open>
  Claim C6. Every call leaves the notice listeners of the connection as they were, so the
  listener that the call creates (a function that is not registered before the call) is
  not registered after it. A listener is registered only in a call that reaches the
  execution routine. In such a call the listener is registered directly before the routine
  is called, on the connection that the routine receives, and removed directly after it
  (after the message of the logger when the routine fails): on success, on an error that
  is classified and on one that is thrown again. It is registered and removed once, and
  the hooks \<open>queryExecutionError\<close> are all invoked after the removal.
\<close>

theorem notice_listener_lifetime:
  fixes env :: "'v environment" and clientConfiguration :: "('v, 'r, 'f, 'n) clientConfiguration"
  assumes run: "executeQuery env connection clientConfiguration rawSql vs inheritedQueryId
      executionRoutine = (outcome, connection', evs)"
  shows "noticeListeners connection' = noticeListeners connection \<and>
    (noticeListener env \<notin> set (noticeListeners connection) \<longrightarrow>
       noticeListener env \<notin> set (noticeListeners connection')) \<and>
    (\<forall>l. On l \<in> set evs \<longrightarrow> (\<exists>s nvs q r. ExecutionRoutine s nvs q r \<in> set evs)) \<and>
    (\<forall>s nvs q r. ExecutionRoutine s nvs q r \<in> set evs \<longrightarrow>
       r = snd (executionRoutine (connection_on (noticeListener env) connection) s nvs
             (executionContext env connection clientConfiguration rawSql vs inheritedQueryId)
             q) \<and>
       (\<exists>pre post.
          evs = pre @ [On (noticeListener env), ExecutionRoutine s nvs q r] @
            (case r of Inl error \<Rightarrow> [LogError error] | Inr result \<Rightarrow> []) @
            [Off (noticeListener env)] @ post \<and>
          (\<forall>l. On l \<notin> set pre \<union> set post) \<and> (\<forall>l. Off l \<notin> set pre \<union> set post) \<and>
          (\<forall>s' nvs' q' r'. ExecutionRoutine s' nvs' q' r' \<notin> set pre \<union> set post) \<and>
          (\<forall>i q' e x. QueryExecutionError i q' e x \<notin> set pre)))"
proof (intro conjI allI impI)
  show l: "noticeListeners connection' = noticeListeners connection"
    using noticeListeners_executeQuery [OF run] .
  assume "noticeListener env \<notin> set (noticeListeners connection)"
  with l show "noticeListener env \<notin> set (noticeListeners connection')" by simp
next
  fix l
  assume "On l \<in> set evs"
  from registered_only_for_an_execution [OF run this]
  show "\<exists>s nvs q r. ExecutionRoutine s nvs q r \<in> set evs" .
next
  fix s nvs q r
  assume ev: "ExecutionRoutine s nvs q r \<in> set evs"
  from executeQuery_executed [OF run ev] obtain evs1 evs2 evs3 evs4 where
    l1: "run_beforeTransformQuery
       (executionContext env connection clientConfiguration rawSql vs inheritedQueryId)
       \<lparr>sql = rawSql, values' = vs\<rparr> (indexed (interceptors clientConfiguration)) = (None, evs1)"
    and l2: "run_transformQuery
       (executionContext env connection clientConfiguration rawSql vs inheritedQueryId)
       \<lparr>sql = rawSql, values' = vs\<rparr> (indexed (interceptors clientConfiguration)) = (Inr q, evs2)"
    and l3: "run_beforeQueryExecution
       (executionContext env connection clientConfiguration rawSql vs inheritedQueryId) q
       (indexed (interceptors clientConfiguration)) = (Inr None, evs3)"
    and l4: "executeActualQuery env connection executionRoutine
       (executionContext env connection clientConfiguration rawSql vs inheritedQueryId) q
       (indexed (interceptors clientConfiguration)) = (outcome, connection', evs4)"
    and evs: "evs = evs1 @ evs2 @ evs3 @ evs4"
    and e4: "ExecutionRoutine s nvs q r \<in> set evs4" by blast
  let ?pre = "evs1 @ evs2 @ evs3"
  have pre: "\<forall>ev\<in>set ?pre. beforeExecution ev"
    using l1 l2 l3 by (auto dest: beforeExecution_events)
  from executeActualQuery_shape [OF l4] obtain r0 post where
    shape: "evs4 = [On (noticeListener env),
            ExecutionRoutine (sql q) (normaliseQueryValues env (values' q) (native connection))
              q r0] @
           (case r0 of Inl error \<Rightarrow> [LogError error] | Inr result \<Rightarrow> []) @
           [Off (noticeListener env)] @ post"
    and post: "\<forall>ev\<in>set post. afterExecution ev" by blast
  have "\<not> afterExecution (ExecutionRoutine s nvs q r :: ('v, 'r, 'f, 'n) event)" by simp
  with post have "ExecutionRoutine s nvs q r \<notin> set post" by blast
  with e4 shape have same:
    "ExecutionRoutine s nvs q r =
       ExecutionRoutine (sql q) (normaliseQueryValues env (values' q) (native connection)) q r0"
    by (cases r0) auto
  have "evs = ?pre @ [On (noticeListener env), ExecutionRoutine s nvs q r] @
            (case r of Inl error \<Rightarrow> [LogError error] | Inr result \<Rightarrow> []) @
            [Off (noticeListener env)] @ post"
    using evs shape same by simp
  moreover have "\<forall>l. On l \<notin> set ?pre \<union> set post"
  proof
    fix l
    have "\<not> beforeExecution (On l :: ('v, 'r, 'f, 'n) event)"
      "\<not> afterExecution (On l :: ('v, 'r, 'f, 'n) event)" by simp_all
    with pre post show "On l \<notin> set ?pre \<union> set post" by blast
  qed
  moreover have "\<forall>l. Off l \<notin> set ?pre \<union> set post"
  proof
    fix l
    have "\<not> beforeExecution (Off l :: ('v, 'r, 'f, 'n) event)"
      "\<not> afterExecution (Off l :: ('v, 'r, 'f, 'n) event)" by simp_all
    with pre post show "Off l \<notin> set ?pre \<union> set post" by blast
  qed
  moreover have "\<forall>s' nvs' q' r'. ExecutionRoutine s' nvs' q' r' \<notin> set ?pre \<union> set post"
  proof (intro allI)
    fix s' nvs' q' r'
    have "\<not> beforeExecution (ExecutionRoutine s' nvs' q' r' :: ('v, 'r, 'f, 'n) event)"
      "\<not> afterExecution (ExecutionRoutine s' nvs' q' r' :: ('v, 'r, 'f, 'n) event)"
      by simp_all
    with pre post show "ExecutionRoutine s' nvs' q' r' \<notin> set ?pre \<union> set post" by blast
  qed
  moreover have "\<forall>i q' e x. QueryExecutionError i q' e x \<notin> set ?pre"
  proof (intro allI)
    fix i q' e x
    have "\<not> beforeExecution (QueryExecutionError i q' e x :: ('v, 'r, 'f, 'n) event)"
      by simp
    with pre show "QueryExecutionError i q' e x \<notin> set ?pre" by blast
  qed
  ultimately show "\<exists>pre post.
          evs = pre @ [On (noticeListener env), ExecutionRoutine s nvs q r] @
            (case r of Inl error \<Rightarrow> [LogError error] | Inr result \<Rightarrow> []) @
            [Off (noticeListener env)] @ post \<and>
          (\<forall>l. On l \<notin> set pre \<union> set post) \<and> (\<forall>l. Off l \<notin> set pre \<union> set post) \<and>
          (\<forall>s' nvs' q' r'. ExecutionRoutine s' nvs' q' r' \<notin> set pre \<union> set post) \<and>
          (\<forall>i q' e x. QueryExecutionError i q' e x \<notin> set pre)"
    by blast
  from executeActualQuery_ExecutionRoutine [OF l4 e4]
  show "r = snd (executionRoutine (connection_on (noticeListener env) connection) s nvs
             (executionContext env connection clientConfiguration rawSql vs inheritedQueryId)
             q)" by simp
qed

theorem notice_listener_lifetime_witness:
  "ExecutionRoutine (js ''SELECT 1 A B'') [] \<lparr>sql = js ''SELECT 1 A B'', values' = []\<rparr>
     (Inr \<lparr>rows = Some [1, 2], fields' = Some 3, notices = []\<rparr>) \<in> set (snd (snd selectCall)) \<and>
   noticeListener exampleEnvironment \<notin> set (noticeListeners exampleConnection) \<and>
   noticeListeners (fst (snd selectCall)) = noticeListeners exampleConnection \<and>
   noticeListener exampleEnvironment \<notin> set (noticeListeners (fst (snd selectCall))) \<and>
   (\<exists>pre post. snd (snd selectCall) =
      pre @ [On (noticeListener exampleEnvironment),
        ExecutionRoutine (js ''SELECT 1 A B'') [] \<lparr>sql = js ''SELECT 1 A B'', values' = []\<rparr>
         (Inr \<lparr>rows = Some [1, 2], fields' = Some 3, notices = []\<rparr>)] @
      [Off (noticeListener exampleEnvironment)] @ post \<and>
      (\<forall>l. On l \<notin> set pre \<union> set post) \<and> (\<forall>l. Off l \<notin> set pre \<union> set post))"
proof -
  have run: "executeQuery exampleEnvironment exampleConnection
       (exampleConfiguration [interceptorA, noHooks, interceptorB])
       (js ''SELECT 1'') [] None selectRoutine =
     (fst selectCall, fst (snd selectCall), snd (snd selectCall))"
    by (simp add: selectCall_def)
  have ev: "ExecutionRoutine (js ''SELECT 1 A B'') [] \<lparr>sql = js ''SELECT 1 A B'', values' = []\<rparr>
     (Inr \<lparr>rows = Some [1, 2], fields' = Some 3, notices = []\<rparr>) \<in> set (snd (snd selectCall))"
    by (simp add: selectCall_eval)
  have fresh: "noticeListener exampleEnvironment \<notin> set (noticeListeners exampleConnection)"
    by (simp add: exampleEnvironment_def exampleConnection_def)
  note lifetime = notice_listener_lifetime [OF run]
  note a = lifetime [THEN conjunct1]
  note b = lifetime [THEN conjunct2, THEN conjunct1, rule_format, OF fresh]
  from lifetime [THEN conjunct2, THEN conjunct2, THEN conjunct2, rule_format, OF ev,
      THEN conjunct2]
  have c: "\<exists>pre post. snd (snd selectCall) =
      pre @ [On (noticeListener exampleEnvironment),
        ExecutionRoutine (js ''SELECT 1 A B'') [] \<lparr>sql = js ''SELECT 1 A B'', values' = []\<rparr>
         (Inr \<lparr>rows = Some [1, 2], fields' = Some 3, notices = []\<rparr>)] @
      [Off (noticeListener exampleEnvironment)] @ post \<and>
      (\<forall>l. On l \<notin> set pre \<union> set post) \<and> (\<forall>l. Off l \<notin> set pre \<union> set post)"
    by simp blast
  from ev fresh a b c show ?thesis by blast
qed

section \<open>The errors of the execution routine\<close>






section \<open>The hooks queryExecutionError\<close>




text \<open>
  Claim C10. If in a call a hook \<open>queryExecutionError\<close> throws, the call throws the error
  of the hook. The invocation is the last event of the call, so no later hook is invoked.
  Before it the execution routine has failed, the error that the hook receives is the
  classified one, the notice listener has been removed, and the hooks
  \<open>queryExecutionError\<close> before it have not thrown. The notice listeners of the connection
  are as before the call.
\<close>

theorem queryExecutionError_hook_that_throws:
  fixes env :: "'v environment" and clientConfiguration :: "('v, 'r, 'f, 'n) clientConfiguration"
  assumes run: "executeQuery env connection clientConfiguration rawSql vs inheritedQueryId
      executionRoutine = (outcome, connection', evs)"
    and hook: "QueryExecutionError i q e (Some x) \<in> set evs"
  shows "outcome = Inl x \<and>
    noticeListeners connection' = noticeListeners connection \<and>
    (\<exists>pre s nvs error.
       evs = pre @ [QueryExecutionError i q e (Some x)] \<and>
       ExecutionRoutine s nvs q (Inl error) \<in> set pre \<and>
       e = snd (catchExecutionError connection error) \<and>
       Off (noticeListener env) \<in> set pre \<and>
       (\<forall>j q' e' y. QueryExecutionError j q' e' y \<in> set pre \<longrightarrow> y = None))"
proof -
  let ?ctx = "executionContext env connection clientConfiguration rawSql vs inheritedQueryId"
  let ?ixs = "indexed (interceptors clientConfiguration)"
  from queryExecutionError_after_failure [OF run hook] obtain s nvs error where
    ev: "ExecutionRoutine s nvs q (Inl error) \<in> set evs" by blast
  let ?cl = "snd (catchExecutionError connection error)"
  from executeQuery_failed [OF run ev] obtain pre h post where
    pre: "\<forall>ev\<in>set pre. beforeExecution ev"
    and q: "run_queryExecutionError ?ctx q ?cl ?ixs = (h, post)"
    and evs: "evs = pre @ [On (noticeListener env), ExecutionRoutine s nvs q (Inl error),
                  LogError error, Off (noticeListener env)] @ post"
    and out: "outcome = Inl (case h of Some e \<Rightarrow> e | None \<Rightarrow> ?cl)" by blast
  have "\<not> beforeExecution (QueryExecutionError i q e (Some x) :: ('v, 'r, 'f, 'n) event)"
    by simp
  with pre have "QueryExecutionError i q e (Some x) \<notin> set pre" by blast
  with hook evs have in_post: "QueryExecutionError i q e (Some x) \<in> set post" by simp
  from queryExecutionError_eventsD [OF q in_post] have e: "e = ?cl" by simp
  have h: "h = Some x \<and> (\<exists>p. post = p @ [QueryExecutionError i q e (Some x)] \<and>
      (\<forall>ev\<in>set p. \<exists>j. ev = QueryExecutionError j q ?cl None))"
  proof (cases h)
    case None
    with run_queryExecutionError_thrown [OF q] in_post show ?thesis by auto
  next
    case (Some y)
    with run_queryExecutionError_thrown [OF q] obtain p k where
      p: "post = p @ [QueryExecutionError k q ?cl (Some y)]"
      "\<forall>ev\<in>set p. \<exists>j. ev = QueryExecutionError j q ?cl None" by auto
    with in_post have "y = x" "k = i" by auto
    with p Some e show ?thesis by simp
  qed
  then obtain p where p: "post = p @ [QueryExecutionError i q e (Some x)]"
    "\<forall>ev\<in>set p. \<exists>j. ev = QueryExecutionError j q ?cl None" by blast
  let ?pre = "pre @ [On (noticeListener env), ExecutionRoutine s nvs q (Inl error),
                  LogError error, Off (noticeListener env)] @ p"
  have none: "\<forall>j q' e' y. QueryExecutionError j q' e' y \<in> set ?pre \<longrightarrow> y = None"
  proof (intro allI impI)
    fix j q' e' y
    assume a: "QueryExecutionError j q' e' y \<in> set ?pre"
    have "\<not> beforeExecution (QueryExecutionError j q' e' y :: ('v, 'r, 'f, 'n) event)"
      by simp
    with pre have "QueryExecutionError j q' e' y \<notin> set pre" by blast
    with a have "QueryExecutionError j q' e' y \<in> set p" by simp
    with p(2) show "y = None" by auto
  qed
  have "evs = ?pre @ [QueryExecutionError i q e (Some x)]" using evs p by simp
  moreover have "ExecutionRoutine s nvs q (Inl error) \<in> set ?pre" by simp
  moreover have "Off (noticeListener env) \<in> set ?pre" by simp
  ultimately have "\<exists>pre s nvs error.
       evs = pre @ [QueryExecutionError i q e (Some x)] \<and>
       ExecutionRoutine s nvs q (Inl error) \<in> set pre \<and>
       e = snd (catchExecutionError connection error) \<and>
       Off (noticeListener env) \<in> set pre \<and>
       (\<forall>j q' e' y. QueryExecutionError j q' e' y \<in> set pre \<longrightarrow> y = None)"
    using e none by blast
  moreover from out h have "outcome = Inl x" by simp
  moreover note noticeListeners_executeQuery [OF run]
  ultimately show ?thesis by blast
qed

theorem queryExecutionError_hook_that_throws_witness:
  "QueryExecutionError 1 \<lparr>sql = js ''SELECT 1 A B'', values' = []\<rparr>
     (UniqueIntegrityConstraintViolationError uniqueViolation (Some (js ''users_pkey'')))
     (Some hookFailure) \<in>
     set (snd (snd (failingCall [interceptorA, throwingInterceptor, interceptorB]
        uniqueViolation))) \<and>
   fst (failingCall [interceptorA, throwingInterceptor, interceptorB] uniqueViolation) =
     Inl hookFailure \<and>
   noticeListeners (fst (snd (failingCall [interceptorA, throwingInterceptor, interceptorB]
      uniqueViolation))) = noticeListeners exampleConnection"
proof -
  let ?call = "failingCall [interceptorA, throwingInterceptor, interceptorB] uniqueViolation"
  have run: "executeQuery exampleEnvironment exampleConnection
       (exampleConfiguration [interceptorA, throwingInterceptor, interceptorB]) (js ''SELECT 1'')
       [] None (failingRoutine uniqueViolation) = (fst ?call, fst (snd ?call), snd (snd ?call))"
    by (simp add: failingCall_def)
  have hook: "QueryExecutionError 1 \<lparr>sql = js ''SELECT 1 A B'', values' = []\<rparr>
     (UniqueIntegrityConstraintViolationError uniqueViolation (Some (js ''users_pkey'')))
     (Some hookFailure) \<in> set (snd (snd ?call))"
    by (simp add: throwing_hook_call_eval)
  note thrown = queryExecutionError_hook_that_throws [OF run hook]
  from hook thrown [THEN conjunct1] thrown [THEN conjunct2, THEN conjunct1]
  show ?thesis by blast
qed

section \<open>The hooks transformRow\<close>

text \<open>
  Claim C9. Let the execution routine return a result. If the result has no rows, no hook
  \<open>transformRow\<close> is invoked in the call, and the result that the call returns has no rows.
  If it has rows and the call returns a result, the rows of that result are, row by row,
  what the chain of the hooks \<open>transformRow\<close> in the order of registration makes of the
  rows of the execution routine.
\<close>

theorem transformRow_hooks_on_every_row:
  fixes env :: "'v environment" and clientConfiguration :: "('v, 'r, 'f, 'n) clientConfiguration"
  assumes run: "executeQuery env connection clientConfiguration rawSql vs inheritedQueryId
      executionRoutine = (outcome, connection', evs)"
    and ev: "ExecutionRoutine s nvs q (Inr raw) \<in> set evs"
  shows "(rows raw = None \<longrightarrow> (\<forall>i q' row fs x. TransformRow i q' row fs x \<notin> set evs)) \<and>
    (\<forall>result. outcome = Inr result \<longrightarrow>
       (case rows raw of
          None \<Rightarrow> rows result = None
        | Some rs \<Rightarrow>
            \<exists>rs'. rows result = Some rs' \<and>
              map Inr rs' =
                map (spec_transformRow_chain
                       (executionContext env connection clientConfiguration rawSql vs
                          inheritedQueryId)
                       q (fields' raw) (indexed (interceptors clientConfiguration))) rs))"
proof -
  let ?ctx = "executionContext env connection clientConfiguration rawSql vs inheritedQueryId"
  let ?ixs = "indexed (interceptors clientConfiguration)"
  let ?nvs = "normaliseQueryValues env (values' q) (native connection)"
  from executeQuery_executed [OF run ev] obtain evs1 evs2 evs3 evs4 where
    l1: "run_beforeTransformQuery ?ctx \<lparr>sql = rawSql, values' = vs\<rparr> ?ixs = (None, evs1)"
    and l2: "run_transformQuery ?ctx \<lparr>sql = rawSql, values' = vs\<rparr> ?ixs = (Inr q, evs2)"
    and l3: "run_beforeQueryExecution ?ctx q ?ixs = (Inr None, evs3)"
    and l4: "executeActualQuery env connection executionRoutine ?ctx q ?ixs =
       (outcome, connection', evs4)"
    and evs: "evs = evs1 @ evs2 @ evs3 @ evs4"
    and e4: "ExecutionRoutine s nvs q (Inr raw) \<in> set evs4" by blast
  have pre: "\<forall>ev\<in>set (evs1 @ evs2 @ evs3). beforeExecution ev"
    using l1 l2 l3 by (auto dest: beforeExecution_events)
  from executeActualQuery_ExecutionRoutine [OF l4 e4]
  have s: "s = sql q" and nvs: "nvs = ?nvs"
    and raw: "snd (executionRoutine (connection_on (noticeListener env) connection) (sql q)
       ?nvs ?ctx q) = Inr raw" by simp_all
  then obtain ns where call:
    "executionRoutine (connection_on (noticeListener env) connection) (sql q) ?nvs ?ctx q =
       (ns, Inr raw)"
    by (metis prod.collapse)
  from executeActualQuery_success [where executionRoutine = executionRoutine and env = env
      and c = connection and q = q and ctx = ?ctx and ixs = ?ixs, OF call] l4
  have out: "outcome = fst (finishQuery ?ctx q ?ixs raw ns)"
    and evs4: "evs4 = [On (noticeListener env), ExecutionRoutine (sql q) ?nvs q (Inr raw),
       Off (noticeListener env)] @ snd (finishQuery ?ctx q ?ixs raw ns)"
    by simp_all
  have no_rows: "\<forall>i q' row fs x. TransformRow i q' row fs x \<notin> set evs" if none: "rows raw = None"
  proof (intro allI)
    fix i q' row fs x
    have "\<not> beforeExecution (TransformRow i q' row fs x :: ('v, 'r, 'f, 'n) event)" by simp
    with pre have a: "TransformRow i q' row fs x \<notin> set (evs1 @ evs2 @ evs3)" by blast
    have b: "TransformRow i q' row fs x \<notin> set (snd (finishQuery ?ctx q ?ixs raw ns))"
      using finishQuery_without_rows [OF none, of "TransformRow i q' row fs x" ?ctx q ?ixs ns]
      by auto
    from a b evs evs4 show "TransformRow i q' row fs x \<notin> set evs" by simp
  qed
  have result: "case rows raw of
          None \<Rightarrow> rows result = None
        | Some rs \<Rightarrow>
            \<exists>rs'. rows result = Some rs' \<and>
              map Inr rs' = map (spec_transformRow_chain ?ctx q (fields' raw) ?ixs) rs"
    if "outcome = Inr result" for result
  proof -
    from that out have "finishQuery ?ctx q ?ixs raw ns =
        (Inr result, snd (finishQuery ?ctx q ?ixs raw ns))"
      by (metis prod.collapse)
    from finishQuery_rows [OF this] show ?thesis .
  qed
  from no_rows result show ?thesis by blast
qed

theorem transformRow_hooks_on_every_row_witness:
  "ExecutionRoutine (js ''SELECT 1 A B'') [] \<lparr>sql = js ''SELECT 1 A B'', values' = []\<rparr>
     (Inr \<lparr>rows = Some [1, 2], fields' = Some 3, notices = []\<rparr>) \<in> set (snd (snd selectCall)) \<and>
   fst selectCall = Inr \<lparr>rows = Some [4, 6], fields' = Some 3, notices = [5]\<rparr> \<and>
   map (spec_transformRow_chain
          (executionContext exampleEnvironment exampleConnection
             (exampleConfiguration [interceptorA, noHooks, interceptorB]) (js ''SELECT 1'') []
             None)
          \<lparr>sql = js ''SELECT 1 A B'', values' = []\<rparr> (Some 3)
          (indexed (interceptors (exampleConfiguration [interceptorA, noHooks, interceptorB]))))
       [1, 2] = [Inr 4, Inr 6] \<and>
   ExecutionRoutine (js ''SELECT 1 A B'') [] \<lparr>sql = js ''SELECT 1 A B'', values' = []\<rparr>
     (Inr \<lparr>rows = None, fields' = None, notices = []\<rparr>) \<in> set (snd (snd streamCall)) \<and>
   (\<forall>i q row fs x. TransformRow i q row fs x \<notin> set (snd (snd streamCall)))"
proof -
  have run: "executeQuery exampleEnvironment exampleConnection
       (exampleConfiguration [interceptorA, noHooks, interceptorB])
       (js ''SELECT 1'') [] None selectRoutine =
     (fst selectCall, fst (snd selectCall), snd (snd selectCall))"
    by (simp add: selectCall_def)
  have ev: "ExecutionRoutine (js ''SELECT 1 A B'') [] \<lparr>sql = js ''SELECT 1 A B'', values' = []\<rparr>
     (Inr \<lparr>rows = Some [1, 2], fields' = Some 3, notices = []\<rparr>) \<in> set (snd (snd selectCall))"
    by (simp add: selectCall_eval)
  have out: "fst selectCall = Inr \<lparr>rows = Some [4, 6], fields' = Some 3, notices = [5]\<rparr>"
    by (simp add: selectCall_eval)
  from transformRow_hooks_on_every_row [OF run ev, THEN conjunct2, rule_format, OF out]
  have chain: "map (spec_transformRow_chain
          (executionContext exampleEnvironment exampleConnection
             (exampleConfiguration [interceptorA, noHooks, interceptorB]) (js ''SELECT 1'') []
             None)
          \<lparr>sql = js ''SELECT 1 A B'', values' = []\<rparr> (Some 3)
          (indexed (interceptors (exampleConfiguration [interceptorA, noHooks, interceptorB]))))
       [1, 2] = [Inr 4, Inr 6]"
    by simp
  have run2: "executeQuery exampleEnvironment exampleConnection
       (exampleConfiguration [interceptorA, noHooks, interceptorB])
       (js ''SELECT 1'') [] None streamRoutine =
     (fst streamCall, fst (snd streamCall), snd (snd streamCall))"
    by (simp add: streamCall_def)
  have ev2: "ExecutionRoutine (js ''SELECT 1 A B'') [] \<lparr>sql = js ''SELECT 1 A B'', values' = []\<rparr>
     (Inr \<lparr>rows = None, fields' = None, notices = []\<rparr>) \<in> set (snd (snd streamCall))"
    by (simp add: streamCall_eval)
  from transformRow_hooks_on_every_row [OF run2 ev2, THEN conjunct1]
  have none: "\<forall>i q row fs x. TransformRow i q row fs x \<notin> set (snd (snd streamCall))"
    by simp
  from ev out chain ev2 none show ?thesis by blast
qed

end
